theory Spec2Isabelle
  imports Main
begin

section \<open>Time, errors and tokens\<close>

text \<open>
  Go's \<^verbatim>\<open>time.Time\<close> is modelled as an integer count of nanoseconds since the zero
  instant (January 1, year 1, 00:00:00 UTC), so that \<^verbatim>\<open>t.IsZero()\<close> is \<open>t = 0\<close>,
  \<^verbatim>\<open>t.Add(d)\<close> is \<open>t + d\<close> and \<^verbatim>\<open>t.After(u)\<close> is \<open>u < t\<close>. A \<^verbatim>\<open>time.Duration\<close>
  is a count of nanoseconds. The reading of the wall clock, \<^verbatim>\<open>time.Now()\<close>, is an
  input of every operation that consults it.
\<close>

type_synonym time = int
type_synonym duration = int

definition Second :: duration where
  "Second = 1000000000"

text \<open>
  \<^verbatim>\<open>time.Duration\<close> is an \<^verbatim>\<open>int64\<close>: a product of durations that leaves the 64-bit range
  wraps around. \<open>int64 x\<close> is the value an \<^verbatim>\<open>int64\<close> holds after computing \<open>x\<close>.
\<close>

definition int64 :: "int \<Rightarrow> int" where
  "int64 x = (x + 2 ^ 63) mod 2 ^ 64 - 2 ^ 63"

definition Minute :: duration where
  "Minute = 60 * Second"

definition IsZero :: "time \<Rightarrow> bool" where
  "IsZero t = (t = 0)"

definition Add :: "time \<Rightarrow> duration \<Rightarrow> time" where
  "Add t d = t + d"

definition After :: "time \<Rightarrow> time \<Rightarrow> bool" where
  "After t u = (u < t)"

text \<open>
  Go errors: a sentinel value, a message made by \<^verbatim>\<open>fmt.Errorf\<close> without \<^verbatim>\<open>%w\<close>, or a
  message wrapping another error (\<^verbatim>\<open>fmt.Errorf("msg: %w", err)\<close>).
\<close>

datatype err =
    ErrTokenNotFound
  | Errorf string
  | Wrap string err

text \<open>\<^verbatim>\<open>oauth2.Token\<close>: the fields the repository reads and writes.\<close>

record Token =
  AccessToken :: string
  TokenType :: string
  RefreshToken :: string
  Expiry :: time

section \<open>Collaborators: configuration, provider endpoints, Redis\<close>

text \<open>
  \<^verbatim>\<open>config.ProviderConfig\<close> and \<^verbatim>\<open>oauth2.Config\<close> (with its \<^verbatim>\<open>Endpoint\<close> flattened).
  The second record extends the first, so the selectors \<open>ClientID\<close>, \<open>ClientSecret\<close> and
  \<open>Scopes\<close> read both, as the Go field names do.
\<close>

record ProviderConfig =
  ClientID :: string
  ClientSecret :: string
  Scopes :: "string list"

record OAuth2Config = ProviderConfig +
  AuthURL :: string
  TokenURL :: string
  RedirectURL :: string

record ServerOAuthConfig =
  YouTube :: ProviderConfig
  X :: ProviderConfig
  Facebook :: ProviderConfig
  TikTok :: ProviderConfig
  Instagram :: ProviderConfig

text \<open>\<^verbatim>\<open>config.Config\<close>: only the \<^verbatim>\<open>Servers\<close> map is read by the code modelled here.\<close>

record Config =
  Servers :: "string \<rightharpoonup> ServerOAuthConfig"

text \<open>The endpoint constants of \<^verbatim>\<open>internal/config/constants.go\<close>.\<close>

definition YouTubeAuthURL :: string where
  "YouTubeAuthURL = ''https://accounts.google.com/o/oauth2/auth''"

definition YouTubeTokenURL :: string where
  "YouTubeTokenURL = ''https://oauth2.googleapis.com/token''"

definition XAuthURL :: string where
  "XAuthURL = ''https://x.com/i/oauth2/authorize''"

definition XTokenURL :: string where
  "XTokenURL = ''https://api.x.com/2/oauth2/token''"

definition FacebookAuthURL :: string where
  "FacebookAuthURL = ''https://www.facebook.com/v18.0/dialog/oauth''"

definition FacebookTokenURL :: string where
  "FacebookTokenURL = ''https://graph.facebook.com/v18.0/oauth/access_token''"

definition TikTokAuthURL :: string where
  "TikTokAuthURL = ''https://www.tiktok.com/v2/auth/authorize/''"

definition TikTokTokenURL :: string where
  "TikTokTokenURL = ''https://open.tiktokapis.com/v2/oauth/token/''"

definition InstagramAuthURL :: string where
  "InstagramAuthURL = ''https://api.instagram.com/oauth/authorize''"

definition InstagramTokenURL :: string where
  "InstagramTokenURL = ''https://api.instagram.com/oauth/access_token''"

definition mkOAuth2Config :: "ProviderConfig \<Rightarrow> string \<Rightarrow> string \<Rightarrow> string \<Rightarrow> OAuth2Config" where
  "mkOAuth2Config pc authURL tokenURL redirectURI =
     \<lparr>ClientID = ClientID pc, ClientSecret = ClientSecret pc, Scopes = Scopes pc,
      AuthURL = authURL, TokenURL = tokenURL, RedirectURL = redirectURI\<rparr>"

text \<open>
  \<^verbatim>\<open>Config.GetServerOAuthConfig\<close>. For YouTube the code uses the library's
  \<^verbatim>\<open>google.Endpoint\<close>, whose two URLs are those of the YouTube constants.
\<close>

definition GetServerOAuthConfig :: "Config \<Rightarrow> string \<Rightarrow> string \<Rightarrow> string \<Rightarrow> err + OAuth2Config" where
  "GetServerOAuthConfig c provider serverName redirectURI =
     (case Servers c serverName of
        None \<Rightarrow> Inl (Errorf ''server configuration not found: %s'')
      | Some serverConfig \<Rightarrow>
          if provider = ''youtube'' then
            Inr (mkOAuth2Config (YouTube serverConfig) YouTubeAuthURL YouTubeTokenURL redirectURI)
          else if provider = ''x'' then
            Inr (mkOAuth2Config (X serverConfig) XAuthURL XTokenURL redirectURI)
          else if provider = ''facebook'' then
            Inr (mkOAuth2Config (Facebook serverConfig) FacebookAuthURL FacebookTokenURL redirectURI)
          else if provider = ''tiktok'' then
            Inr (mkOAuth2Config (TikTok serverConfig) TikTokAuthURL TikTokTokenURL redirectURI)
          else if provider = ''instagram'' then
            Inr (mkOAuth2Config (Instagram serverConfig) InstagramAuthURL InstagramTokenURL redirectURI)
          else Inl (Errorf ''unknown provider: %s''))"

text \<open>
  Calls that leave the process towards a provider. \<open>Do\<close> is a request sent with
  \<^verbatim>\<open>http.Client.Do\<close>: method, URL, the form values in the order the code sets them
  (the request body of a POST, the query of a GET) and the client credentials of an HTTP
  Basic \<^verbatim>\<open>Authorization\<close> header when the code adds one. \<open>LibExchange\<close> and \<open>LibRefresh\<close>
  are the two entry points of the \<^verbatim>\<open>oauth2\<close> library, \<^verbatim>\<open>Config.Exchange\<close> (with its extra
  URL parameters) and \<^verbatim>\<open>Config.TokenSource(...).Token()\<close>.
\<close>

record Request =
  Method :: string
  URL :: string
  Form :: "(string \<times> string) list"
  BasicAuth :: "(string \<times> string) option"

datatype provider_call =
    Do Request
  | LibExchange OAuth2Config string "(string \<times> string) list"
  | LibRefresh OAuth2Config string

text \<open>
  What \<^verbatim>\<open>http.Client.Do\<close> and \<^verbatim>\<open>io.ReadAll\<close> give back: a transport error, or a status
  code with either a read error or the body.
\<close>

datatype http_reply =
    SendError err
  | Reply nat "err + string"

text \<open>The anonymous \<^verbatim>\<open>tokenResponse\<close> structs; the fields are named by their JSON keys.\<close>

record tokenResponse =
  access_token :: string
  token_type :: string
  expires_in :: int
  refresh_token :: string
  scope :: string

datatype log_entry = LogError string | LogInfo string

text \<open>Replies of a Redis \<^verbatim>\<open>GET\<close>: \<^verbatim>\<open>redis.Nil\<close>, another error, or the value.\<close>

datatype redis_reply = RNil | RErr err | RVal string

text \<open>
  The environment of one operation: everything the code reads and does not control.
  \<open>redis_fault n\<close> is the error, if any, with which the \<open>n\<close>-th command sent to Redis
  fails; \<open>transport\<close> and \<open>oauth2lib\<close> answer provider calls. The JSON codecs for
  \<^verbatim>\<open>oauth2.Token\<close> and for the token responses, \<^verbatim>\<open>http.NewRequestWithContext\<close> and the
  platform registry are parameters too.
\<close>

record Env =
  time_Now :: time
  config :: Config
  redis_fault :: "nat \<Rightarrow> err option"
  transport :: "Request \<Rightarrow> http_reply"
  oauth2lib :: "provider_call \<Rightarrow> err + Token"
  newRequestErr :: "Request \<Rightarrow> err option"
  json_Marshal_Token :: "Token \<Rightarrow> err + string"
  json_Unmarshal_Token :: "string \<Rightarrow> err + Token"
  json_Unmarshal_tokenResponse :: "string \<Rightarrow> err + tokenResponse"

text \<open>
  The state the code changes: the Redis keyspace, the number of commands sent to Redis
  so far, the provider calls made so far, and the log. Key expiry (the time-to-live given
  to \<^verbatim>\<open>SET\<close>) is not modelled: \<open>db\<close> is the keyspace as the operation finds it.
\<close>

record World =
  db :: "string \<rightharpoonup> string"
  redis_calls :: nat
  net_log :: "provider_call list"
  logs :: "log_entry list"

definition log_Error :: "string \<Rightarrow> World \<Rightarrow> World" where
  "log_Error msg w = w\<lparr>logs := logs w @ [LogError msg]\<rparr>"

definition log_Info :: "string \<Rightarrow> World \<Rightarrow> World" where
  "log_Info msg w = w\<lparr>logs := logs w @ [LogInfo msg]\<rparr>"

subsection \<open>Redis commands\<close>

definition next_fault :: "Env \<Rightarrow> World \<Rightarrow> err option \<times> World" where
  "next_fault env w = (redis_fault env (redis_calls w), w\<lparr>redis_calls := Suc (redis_calls w)\<rparr>)"

definition redis_Ping :: "Env \<Rightarrow> World \<Rightarrow> err option \<times> World" where
  "redis_Ping env w = next_fault env w"

definition redis_Get :: "Env \<Rightarrow> World \<Rightarrow> string \<Rightarrow> redis_reply \<times> World" where
  "redis_Get env w key =
     (case next_fault env w of
        (Some e, w') \<Rightarrow> (RErr e, w')
      | (None, w') \<Rightarrow> (case db w' key of None \<Rightarrow> (RNil, w') | Some v \<Rightarrow> (RVal v, w')))"

definition redis_Set :: "Env \<Rightarrow> World \<Rightarrow> string \<Rightarrow> string \<Rightarrow> err option \<times> World" where
  "redis_Set env w key v =
     (case next_fault env w of
        (Some e, w') \<Rightarrow> (Some e, w')
      | (None, w') \<Rightarrow> (None, w'\<lparr>db := (db w')(key \<mapsto> v)\<rparr>))"

definition redis_Del :: "Env \<Rightarrow> World \<Rightarrow> string \<Rightarrow> err option \<times> World" where
  "redis_Del env w key =
     (case next_fault env w of
        (Some e, w') \<Rightarrow> (Some e, w')
      | (None, w') \<Rightarrow> (None, w'\<lparr>db := (db w')(key := None)\<rparr>))"

subsection \<open>\<^verbatim>\<open>RedisStorage\<close>\<close>

definition TokenKey :: "string \<Rightarrow> string \<Rightarrow> string \<Rightarrow> string" where
  "TokenKey userID provider serverName =
     (let serverName = (if serverName = [] then ''default'' else serverName)
      in ''token:'' @ serverName @ '':'' @ provider @ '':'' @ userID)"

definition PKCEKey :: "string \<Rightarrow> string" where
  "PKCEKey state = ''pkce:'' @ state"

definition SaveToken :: "Env \<Rightarrow> World \<Rightarrow> string \<Rightarrow> string \<Rightarrow> string \<Rightarrow> Token \<Rightarrow> err option \<times> World" where
  "SaveToken env w userID provider serverName token =
     (let key = TokenKey userID provider serverName
      in case json_Marshal_Token env token of
           Inl e \<Rightarrow> (Some (Wrap ''failed to marshal token'' e), w)
         | Inr data \<Rightarrow> redis_Set env w key data)"

definition GetToken :: "Env \<Rightarrow> World \<Rightarrow> string \<Rightarrow> string \<Rightarrow> string \<Rightarrow> (err + Token) \<times> World" where
  "GetToken env w userID provider serverName =
     (let key = TokenKey userID provider serverName
      in case redis_Ping env w of
           (Some e, w1) \<Rightarrow> (Inl (Wrap ''redis connection failed'' e), w1)
         | (None, w1) \<Rightarrow>
             (case redis_Get env w1 key of
                (RNil, w2) \<Rightarrow> (Inl (Errorf ''token not found''), w2)
              | (RErr e, w2) \<Rightarrow> (Inl (Wrap ''failed to get token'' e), w2)
              | (RVal data, w2) \<Rightarrow>
                  (case json_Unmarshal_Token env data of
                     Inl e \<Rightarrow> (Inl (Wrap ''failed to unmarshal token'' e), w2)
                   | Inr token \<Rightarrow> (Inr token, w2))))"

text \<open>
  \<^verbatim>\<open>GetAndDeletePKCEVerifier\<close>: a pipeline of \<^verbatim>\<open>GET\<close> and \<^verbatim>\<open>DEL\<close>. \<^verbatim>\<open>Exec\<close> returns the
  first error among the two commands, \<^verbatim>\<open>redis.Nil\<close> of the \<^verbatim>\<open>GET\<close> included.
\<close>

definition GetAndDeletePKCEVerifier :: "Env \<Rightarrow> World \<Rightarrow> string \<Rightarrow> (err + string) \<times> World" where
  "GetAndDeletePKCEVerifier env w state =
     (let key = PKCEKey state;
          (getCmd, w1) = redis_Get env w key;
          (delCmd, w2) = redis_Del env w1 key;
          execErr = (case getCmd of
                       RErr e \<Rightarrow> Some (Some e)
                     | RNil \<Rightarrow> Some None
                     | RVal _ \<Rightarrow> (case delCmd of Some e \<Rightarrow> Some (Some e) | None \<Rightarrow> None))
      in case execErr of
           Some (Some e) \<Rightarrow> (Inl (Wrap ''failed to get PKCE verifier'' e), w2)
         | _ \<Rightarrow>
            (case getCmd of
               RNil \<Rightarrow> (Inl (Errorf ''PKCE verifier not found or expired''), w2)
             | RErr e \<Rightarrow> (Inl (Wrap ''failed to get PKCE verifier'' e), w2)
             | RVal verifier \<Rightarrow>
                 (case delCmd of
                    Some e \<Rightarrow> (Inl (Wrap ''failed to delete PKCE verifier'' e), w2)
                  | None \<Rightarrow> (Inr verifier, w2))))"

section \<open>OAuth service: code exchange and refresh\<close>

definition call_transport :: "Env \<Rightarrow> World \<Rightarrow> Request \<Rightarrow> http_reply \<times> World" where
  "call_transport env w req = (transport env req, w\<lparr>net_log := net_log w @ [Do req]\<rparr>)"

definition call_oauth2lib :: "Env \<Rightarrow> World \<Rightarrow> provider_call \<Rightarrow> (err + Token) \<times> World" where
  "call_oauth2lib env w c = (oauth2lib env c, w\<lparr>net_log := net_log w @ [c]\<rparr>)"

text \<open>
  The five hand-written token calls of \<^verbatim>\<open>OAuthService\<close> share their middle part: create
  the request, send it, read the body, require status 200, decode the JSON body. It is
  written once here; \<open>failed\<close> is the message of the status error, which is
  \<^verbatim>\<open>token exchange failed: status=%d body=%s\<close> in the exchange functions and
  \<^verbatim>\<open>token refresh failed: status=%d body=%s\<close> in the refresh functions.
\<close>

definition doTokenRequest :: "Env \<Rightarrow> World \<Rightarrow> Request \<Rightarrow> string \<Rightarrow> (err + tokenResponse) \<times> World" where
  "doTokenRequest env w req failed =
     (case newRequestErr env req of
        Some e \<Rightarrow> (Inl (Wrap ''failed to create request'' e), w)
      | None \<Rightarrow>
          (case call_transport env w req of
             (SendError e, w1) \<Rightarrow> (Inl (Wrap ''failed to send request'' e), w1)
           | (Reply status (Inl e), w1) \<Rightarrow> (Inl (Wrap ''failed to read response'' e), w1)
           | (Reply status (Inr body), w1) \<Rightarrow>
               if status \<noteq> 200 then (Inl (Errorf failed), w1)
               else (case json_Unmarshal_tokenResponse env body of
                       Inl e \<Rightarrow> (Inl (Wrap ''failed to parse token response'' e), w1)
                     | Inr tokenResponse \<Rightarrow> (Inr tokenResponse, w1))))"

text \<open>
  \<^verbatim>\<open>if tokenResponse.ExpiresIn > 0 { token.Expiry = time.Now().Add(time.Duration(tokenResponse.ExpiresIn) * time.Second) }\<close>;
  otherwise the Expiry keeps the zero value of the struct literal. The product is an
  \<^verbatim>\<open>int64\<close> multiplication.
\<close>

definition setExpiry :: "Env \<Rightarrow> tokenResponse \<Rightarrow> Token \<Rightarrow> Token" where
  "setExpiry env tokenResponse token =
     (if expires_in tokenResponse > 0
      then token\<lparr>Expiry := Add (time_Now env) (int64 (expires_in tokenResponse * Second))\<rparr>
      else token)"

definition exchangeCodeWithPKCE :: "Env \<Rightarrow> World \<Rightarrow> OAuth2Config \<Rightarrow> string \<Rightarrow> string \<Rightarrow> (err + Token) \<times> World" where
  "exchangeCodeWithPKCE env w s code verifier =
     (let req = \<lparr>Method = ''POST'', URL = TokenURL s,
                 Form = [(''code'', code), (''grant_type'', ''authorization_code''),
                         (''client_id'', ClientID s), (''redirect_uri'', RedirectURL s),
                         (''code_verifier'', verifier)],
                 BasicAuth = Some (ClientID s, ClientSecret s)\<rparr>
      in case doTokenRequest env w req ''token exchange failed: status=%d body=%s'' of
           (Inl e, w1) \<Rightarrow> (Inl e, w1)
         | (Inr tokenResponse, w1) \<Rightarrow>
             (Inr (setExpiry env tokenResponse
                     \<lparr>AccessToken = access_token tokenResponse,
                      TokenType = token_type tokenResponse,
                      RefreshToken = refresh_token tokenResponse,
                      Expiry = 0\<rparr>), w1))"

definition exchangeInstagramToken :: "Env \<Rightarrow> World \<Rightarrow> OAuth2Config \<Rightarrow> string \<Rightarrow> (err + Token) \<times> World" where
  "exchangeInstagramToken env w s shortLivedToken =
     (let req = \<lparr>Method = ''GET'', URL = ''https://graph.instagram.com/access_token'',
                 Form = [(''grant_type'', ''ig_exchange_token''),
                         (''client_secret'', ClientSecret s),
                         (''access_token'', shortLivedToken)],
                 BasicAuth = None\<rparr>
      in case doTokenRequest env w req ''token exchange failed: status=%d body=%s'' of
           (Inl e, w1) \<Rightarrow> (Inl e, w1)
         | (Inr tokenResponse, w1) \<Rightarrow>
             (Inr (setExpiry env tokenResponse
                     \<lparr>AccessToken = access_token tokenResponse,
                      TokenType = token_type tokenResponse,
                      RefreshToken = access_token tokenResponse,
                      Expiry = 0\<rparr>), w1))"

definition exchangeFacebookToken :: "Env \<Rightarrow> World \<Rightarrow> OAuth2Config \<Rightarrow> string \<Rightarrow> (err + Token) \<times> World" where
  "exchangeFacebookToken env w s shortLivedToken =
     (let req = \<lparr>Method = ''GET'', URL = ''https://graph.facebook.com/oauth/access_token'',
                 Form = [(''grant_type'', ''fb_exchange_token''),
                         (''client_id'', ClientID s),
                         (''client_secret'', ClientSecret s),
                         (''fb_exchange_token'', shortLivedToken)],
                 BasicAuth = None\<rparr>
      in case doTokenRequest env w req ''token exchange failed: status=%d body=%s'' of
           (Inl e, w1) \<Rightarrow> (Inl e, w1)
         | (Inr tokenResponse, w1) \<Rightarrow>
             (Inr (setExpiry env tokenResponse
                     \<lparr>AccessToken = access_token tokenResponse,
                      TokenType = token_type tokenResponse,
                      RefreshToken = access_token tokenResponse,
                      Expiry = 0\<rparr>), w1))"

text \<open>
  \<^verbatim>\<open>OAuthService.ExchangeCode\<close>. The three steps of the Go function in order: the code
  exchange, the Instagram upgrade and the Facebook upgrade (each only when \<^verbatim>\<open>err == nil\<close>
  and the token URL is the provider's), then the final error check.
\<close>

definition ExchangeCode :: "Env \<Rightarrow> World \<Rightarrow> OAuth2Config \<Rightarrow> string \<Rightarrow> string \<Rightarrow> (err + Token) \<times> World" where
  "ExchangeCode env w s code verifier =
     (let (r0, w0) =
            (if verifier \<noteq> [] then
               (if TokenURL s = ''https://api.x.com/2/oauth2/token''
                then exchangeCodeWithPKCE env w s code verifier
                else call_oauth2lib env w (LibExchange s code [(''code_verifier'', verifier)]))
             else call_oauth2lib env w (LibExchange s code []));
          (r1, w1) =
            (case r0 of
               Inr token \<Rightarrow>
                 if TokenURL s = ''https://api.instagram.com/oauth/access_token'' then
                   (case exchangeInstagramToken env w0 s (AccessToken token) of
                      (Inl exchangeErr, w') \<Rightarrow> (Inr token, w')
                    | (Inr longLivedToken, w') \<Rightarrow> (Inr longLivedToken, w'))
                 else (r0, w0)
             | Inl e \<Rightarrow> (r0, w0));
          (r2, w2) =
            (case r1 of
               Inr token \<Rightarrow>
                 if TokenURL s = ''https://graph.facebook.com/v18.0/oauth/access_token'' then
                   (case exchangeFacebookToken env w1 s (AccessToken token) of
                      (Inl exchangeErr, w') \<Rightarrow> (Inr token, w')
                    | (Inr longLivedToken, w') \<Rightarrow> (Inr longLivedToken, w'))
                 else (r1, w1)
             | Inl e \<Rightarrow> (r1, w1))
      in case r2 of
           Inl e \<Rightarrow> (Inl (Wrap ''token exchange failed'' e), w2)
         | Inr token \<Rightarrow> (Inr token, w2))"

definition refreshTokenWithX :: "Env \<Rightarrow> World \<Rightarrow> OAuth2Config \<Rightarrow> string \<Rightarrow> (err + Token) \<times> World" where
  "refreshTokenWithX env w s refreshToken' =
     (let req = \<lparr>Method = ''POST'', URL = TokenURL s,
                 Form = [(''refresh_token'', refreshToken'), (''grant_type'', ''refresh_token''),
                         (''client_id'', ClientID s)],
                 BasicAuth = Some (ClientID s, ClientSecret s)\<rparr>
      in case doTokenRequest env w req ''token refresh failed: status=%d body=%s'' of
           (Inl e, w1) \<Rightarrow> (Inl e, w1)
         | (Inr tokenResponse, w1) \<Rightarrow>
             (Inr (setExpiry env tokenResponse
                     \<lparr>AccessToken = access_token tokenResponse,
                      TokenType = token_type tokenResponse,
                      RefreshToken = refresh_token tokenResponse,
                      Expiry = 0\<rparr>), w1))"

text \<open>
  \<^verbatim>\<open>refreshTokenWithInstagram\<close>: the struct literal sets \<^verbatim>\<open>AccessToken\<close> and
  \<^verbatim>\<open>TokenType\<close> only, so \<^verbatim>\<open>RefreshToken\<close> is the empty string.
\<close>

definition refreshTokenWithInstagram :: "Env \<Rightarrow> World \<Rightarrow> OAuth2Config \<Rightarrow> string \<Rightarrow> (err + Token) \<times> World" where
  "refreshTokenWithInstagram env w s accessToken =
     (let req = \<lparr>Method = ''GET'', URL = ''https://graph.instagram.com/refresh_access_token'',
                 Form = [(''grant_type'', ''ig_refresh_token''),
                         (''access_token'', accessToken)],
                 BasicAuth = None\<rparr>
      in case doTokenRequest env w req ''token refresh failed: status=%d body=%s'' of
           (Inl e, w1) \<Rightarrow> (Inl e, w1)
         | (Inr tokenResponse, w1) \<Rightarrow>
             (Inr (setExpiry env tokenResponse
                     \<lparr>AccessToken = access_token tokenResponse,
                      TokenType = token_type tokenResponse,
                      RefreshToken = [],
                      Expiry = 0\<rparr>), w1))"

definition refreshTokenWithFacebook :: "Env \<Rightarrow> World \<Rightarrow> OAuth2Config \<Rightarrow> string \<Rightarrow> (err + Token) \<times> World" where
  "refreshTokenWithFacebook env w s accessToken =
     (let req = \<lparr>Method = ''GET'', URL = ''https://graph.facebook.com/oauth/access_token'',
                 Form = [(''grant_type'', ''fb_exchange_token''),
                         (''client_id'', ClientID s),
                         (''client_secret'', ClientSecret s),
                         (''fb_exchange_token'', accessToken)],
                 BasicAuth = None\<rparr>
      in case doTokenRequest env w req ''token refresh failed: status=%d body=%s'' of
           (Inl e, w1) \<Rightarrow> (Inl e, w1)
         | (Inr tokenResponse, w1) \<Rightarrow>
             (Inr (setExpiry env tokenResponse
                     \<lparr>AccessToken = access_token tokenResponse,
                      TokenType = token_type tokenResponse,
                      RefreshToken = access_token tokenResponse,
                      Expiry = 0\<rparr>), w1))"

text \<open>\<^verbatim>\<open>OAuthService.RefreshToken\<close> (the name \<open>RefreshToken\<close> is the token's field).\<close>

definition OAuthService_RefreshToken :: "Env \<Rightarrow> World \<Rightarrow> OAuth2Config \<Rightarrow> string \<Rightarrow> (err + Token) \<times> World" where
  "OAuthService_RefreshToken env w s refreshToken' =
     (if TokenURL s = ''https://api.x.com/2/oauth2/token'' then
        refreshTokenWithX env w s refreshToken'
      else if TokenURL s = ''https://api.instagram.com/oauth/access_token'' then
        refreshTokenWithInstagram env w s refreshToken'
      else if TokenURL s = ''https://graph.facebook.com/v18.0/oauth/access_token'' then
        refreshTokenWithFacebook env w s refreshToken'
      else (case call_oauth2lib env w (LibRefresh s refreshToken') of
              (Inl e, w1) \<Rightarrow> (Inl (Wrap ''token refresh failed'' e), w1)
            | (Inr token, w1) \<Rightarrow> (Inr token, w1)))"

section \<open>Token manager\<close>

text \<open>
  \<^verbatim>\<open>TokenManager.isTokenExpired\<close>. The argument is a pointer, \<open>None\<close> is \<^verbatim>\<open>nil\<close>.
\<close>

definition isTokenExpired :: "time \<Rightarrow> Token option \<Rightarrow> bool" where
  "isTokenExpired now token =
     (case token of
        None \<Rightarrow> True
      | Some t \<Rightarrow>
          if IsZero (Expiry t) then True
          else (let expiryBuffer = 5 * Minute
                in After (Add now expiryBuffer) (Expiry t)))"

text \<open>
  \<^verbatim>\<open>TokenManager.refreshToken\<close>. \<^verbatim>\<open>currentToken\<close> is a pointer to the token that the
  caller read from storage, and the Instagram branch assigns to its \<^verbatim>\<open>RefreshToken\<close>
  field. The token object has no other reference, so the model passes it in and returns,
  as the second component, the value it holds when the function returns.
\<close>

definition refreshToken :: "Env \<Rightarrow> World \<Rightarrow> string \<Rightarrow> string \<Rightarrow> string \<Rightarrow> Token \<Rightarrow> (err + Token) \<times> Token \<times> World" where
  "refreshToken env w userID provider serverName currentToken =
     (let checked =
            (if provider = ''instagram'' then
               (if AccessToken currentToken = [] then
                  Inl (''instagram access token not found'', Errorf ''instagram access token not available'')
                else Inr (currentToken\<lparr>RefreshToken := AccessToken currentToken\<rparr>))
             else
               (if RefreshToken currentToken = [] then
                  Inl (''refresh token not found'', Errorf ''refresh token not available'')
                else Inr currentToken))
      in case checked of
           Inl (msg, e) \<Rightarrow> (Inl e, currentToken, log_Error msg w)
         | Inr currentToken \<Rightarrow>
             (case GetServerOAuthConfig (config env) provider serverName [] of
                Inl e \<Rightarrow>
                  (Inl (Wrap ''failed to get OAuth config'' e), currentToken,
                   log_Error ''failed to get OAuth config'' w)
              | Inr oauthConfig \<Rightarrow>
                  (case OAuthService_RefreshToken env w oauthConfig (RefreshToken currentToken) of
                     (Inl e, w1) \<Rightarrow>
                       (Inl (Wrap ''token refresh failed'' e), currentToken,
                        log_Error ''token refresh failed'' w1)
                   | (Inr newToken, w1) \<Rightarrow>
                       (case SaveToken env w1 userID provider serverName newToken of
                          (Some e, w2) \<Rightarrow>
                            (Inl (Wrap ''failed to save refreshed token'' e), currentToken,
                             log_Error ''failed to save refreshed token'' w2)
                        | (None, w2) \<Rightarrow> (Inr newToken, currentToken, w2)))))"

text \<open>\<^verbatim>\<open>TokenManager.GetValidToken\<close>.\<close>

definition GetValidToken :: "Env \<Rightarrow> World \<Rightarrow> string \<Rightarrow> string \<Rightarrow> string \<Rightarrow> (err + Token) \<times> World" where
  "GetValidToken env w userID provider serverName =
     (case GetToken env w userID provider serverName of
        (Inl e, w1) \<Rightarrow> (Inl ErrTokenNotFound, log_Error ''token not found'' w1)
      | (Inr token, w1) \<Rightarrow>
          if isTokenExpired (time_Now env) (Some token) then
            (case refreshToken env (log_Info ''token expired, attempting refresh'' w1)
                    userID provider serverName token of
               (Inl e, _, w2) \<Rightarrow>
                 (Inl (Wrap ''token refresh failed'' e), log_Error ''token refresh failed'' w2)
             | (Inr newToken, _, w2) \<Rightarrow>
                 (Inr newToken, log_Info ''token refreshed successfully'' w2))
          else (Inr token, log_Info ''token is valid'' w1))"

text \<open>\<^verbatim>\<open>TokenManager.IsTokenValid\<close>: the pair is the Go result \<^verbatim>\<open>(bool, error)\<close>.\<close>

definition IsTokenValid :: "Env \<Rightarrow> World \<Rightarrow> string \<Rightarrow> string \<Rightarrow> string \<Rightarrow> (bool \<times> err option) \<times> World" where
  "IsTokenValid env w userID provider serverName =
     (case GetToken env w userID provider serverName of
        (Inl e, w1) \<Rightarrow> ((False, None), w1)
      | (Inr token, w1) \<Rightarrow> ((\<not> isTokenExpired (time_Now env) (Some token), None), w1))"

text \<open>\<^verbatim>\<open>TokenManager.ForceRefreshToken\<close>.\<close>

definition ForceRefreshToken :: "Env \<Rightarrow> World \<Rightarrow> string \<Rightarrow> string \<Rightarrow> string \<Rightarrow> (err + Token) \<times> World" where
  "ForceRefreshToken env w userID provider serverName =
     (case GetToken env w userID provider serverName of
        (Inl e, w1) \<Rightarrow>
          (Inl (Errorf ''OAuth token not found''), log_Error ''token not found for force refresh'' w1)
      | (Inr token, w1) \<Rightarrow>
          (case refreshToken env (log_Info ''force refreshing token'' w1)
                  userID provider serverName token of
             (Inl e, _, w2) \<Rightarrow>
               (Inl (Wrap ''force token refresh failed'' e),
                log_Error ''force token refresh failed'' w2)
           | (Inr newToken, _, w2) \<Rightarrow>
               (Inr newToken, log_Info ''force token refresh successful'' w2)))"

section \<open>The state parameter\<close>

text \<open>
  The \<^verbatim>\<open>state\<close> parameter of an authorization is the base64url encoding (without
  padding) of the JSON encoding of a \<^verbatim>\<open>StatePayload\<close>. Both encodings are those of the Go
  standard library, \<^verbatim>\<open>encoding/base64\<close> and \<^verbatim>\<open>encoding/json\<close>.
\<close>

text \<open>
  A Go string is a sequence of bytes; a HOL \<open>string\<close> models it with one character per
  byte. \<open>byte\<close> reads a byte as a number, \<open>chr\<close> is the byte of a number below 256.
\<close>

definition byte :: "char \<Rightarrow> nat" where
  "byte c = of_char c"

definition chr :: "nat \<Rightarrow> char" where
  "chr n = char_of n"

subsection \<open>\<^verbatim>\<open>base64.RawURLEncoding\<close>\<close>








subsection \<open>UTF-8: \<^verbatim>\<open>utf8.DecodeRune\<close> and \<^verbatim>\<open>utf8.EncodeRune\<close>\<close>

text \<open>
  \<^verbatim>\<open>utf8.DecodeRune\<close> returns the code point that starts the byte string and its width in
  bytes, or \<open>(RuneError, 1)\<close> when the bytes do not start a well-formed encoding (and
  \<open>(RuneError, 0)\<close> on the empty string). The accepted ranges of the second byte are those
  of Go's table: overlong forms and surrogates are rejected.
\<close>

definition RuneError :: nat where
  "RuneError = 0xFFFD"

fun DecodeRune :: "string \<Rightarrow> nat \<times> nat" where
  "DecodeRune [] = (RuneError, 0)"
| "DecodeRune (c0 # p) =
     (let b0 = byte c0 in
      if b0 < 0x80 then (b0, 1)
      else if b0 < 0xC2 \<or> 0xF4 < b0 then (RuneError, 1)
      else
        (let sz = (if b0 < 0xE0 then 2 else if b0 < 0xF0 then 3 else 4);
             lo = (if b0 = 0xE0 then 0xA0 else if b0 = 0xF0 then 0x90 else 0x80);
             hi = (if b0 = 0xED then 0x9F else if b0 = 0xF4 then 0x8F else 0xBF)
         in if Suc (length p) < sz then (RuneError, 1)
            else
              (let b1 = byte (p ! 0) in
               if b1 < lo \<or> hi < b1 then (RuneError, 1)
               else if sz \<le> 2 then ((b0 mod 32) * 64 + b1 mod 64, 2)
               else
                 (let b2 = byte (p ! 1) in
                  if b2 < 0x80 \<or> 0xBF < b2 then (RuneError, 1)
                  else if sz \<le> 3 then ((b0 mod 16) * 4096 + (b1 mod 64) * 64 + b2 mod 64, 3)
                  else
                    (let b3 = byte (p ! 2) in
                     if b3 < 0x80 \<or> 0xBF < b3 then (RuneError, 1)
                     else ((b0 mod 8) * 262144 + (b1 mod 64) * 4096 + (b2 mod 64) * 64
                             + b3 mod 64, 4))))))"

definition EncodeRune :: "nat \<Rightarrow> string" where
  "EncodeRune r =
     (if r \<le> 0x7F then [chr r]
      else if r \<le> 0x7FF then [chr (0xC0 + r div 64), chr (0x80 + r mod 64)]
      else if 0x10FFFF < r \<or> (0xD800 \<le> r \<and> r \<le> 0xDFFF) then [chr 0xEF, chr 0xBF, chr 0xBD]
      else if r \<le> 0xFFFF then
        [chr (0xE0 + r div 4096), chr (0x80 + (r div 64) mod 64), chr (0x80 + r mod 64)]
      else
        [chr (0xF0 + r div 262144), chr (0x80 + (r div 4096) mod 64),
         chr (0x80 + (r div 64) mod 64), chr (0x80 + r mod 64)])"

subsection \<open>\<^verbatim>\<open>json.Marshal\<close> of a \<^verbatim>\<open>StatePayload\<close>\<close>

text \<open>
  The string encoder of \<^verbatim>\<open>encoding/json\<close> with HTML escaping on, as \<^verbatim>\<open>json.Marshal\<close>
  uses it: ASCII characters other than the quote, the backslash, the control characters
  and \<^verbatim>\<open><\<close>, \<^verbatim>\<open>>\<close>, \<^verbatim>\<open>&\<close> are copied; a byte that does not start a well-formed UTF-8
  sequence is written as the escape of U+FFFD; U+2028 and U+2029 are escaped; every other
  well-formed sequence is copied.
\<close>

definition dquote :: char where
  "dquote = CHR 0x22"

definition backslash :: char where
  "backslash = CHR 0x5C"

definition hex :: string where
  "hex = ''0123456789abcdef''"

definition htmlSafeSet :: "nat \<Rightarrow> bool" where
  "htmlSafeSet b = (0x20 \<le> b \<and> b < 0x80 \<and> b \<noteq> 0x22 \<and> b \<noteq> 0x26 \<and> b \<noteq> 0x3C \<and> b \<noteq> 0x3E \<and> b \<noteq> 0x5C)"

function appendString :: "string \<Rightarrow> string" where
  "appendString [] = []"
| "appendString (c # src) =
     (let b = byte c in
      if b < 0x80 then
        (if htmlSafeSet b then [c]
         else if c = backslash \<or> c = dquote then [backslash, c]
         else if b = 0x08 then [backslash, CHR ''b'']
         else if b = 0x0C then [backslash, CHR ''f'']
         else if b = 0x0A then [backslash, CHR ''n'']
         else if b = 0x0D then [backslash, CHR ''r'']
         else if b = 0x09 then [backslash, CHR ''t'']
         else [backslash, CHR ''u'', CHR ''0'', CHR ''0'', hex ! (b div 16), hex ! (b mod 16)])
        @ appendString src
      else
        (case DecodeRune (c # src) of
           (r, sz) \<Rightarrow>
             if r = RuneError \<and> sz = 1 then
               [backslash, CHR ''u'', CHR ''f'', CHR ''f'', CHR ''f'', CHR ''d''] @ appendString src
             else if r = 0x2028 \<or> r = 0x2029 then
               [backslash, CHR ''u'', CHR ''2'', CHR ''0'', CHR ''2'', hex ! (r mod 16)]
               @ appendString (drop (sz - 1) src)
             else take sz (c # src) @ appendString (drop (sz - 1) src)))"
  by pat_completeness auto
termination
  by (relation "measure length") auto

text \<open>
  \<^verbatim>\<open>utf8.ValidString\<close>, and the string that the encoder above followed by the decoder below
  makes of a string: each byte that does not start a well-formed sequence is replaced by
  the three bytes of U+FFFD.
\<close>

function utf8_ValidString :: "string \<Rightarrow> bool" where
  "utf8_ValidString [] = True"
| "utf8_ValidString (c # src) =
     (if byte c < 0x80 then utf8_ValidString src
      else (case DecodeRune (c # src) of
              (r, sz) \<Rightarrow> \<not> (r = RuneError \<and> sz = 1) \<and> utf8_ValidString (drop (sz - 1) src)))"
  by pat_completeness auto
termination
  by (relation "measure length") auto

function utf8_coerce :: "string \<Rightarrow> string" where
  "utf8_coerce [] = []"
| "utf8_coerce (c # src) =
     (if byte c < 0x80 then c # utf8_coerce src
      else (case DecodeRune (c # src) of
              (r, sz) \<Rightarrow>
                if r = RuneError \<and> sz = 1 then EncodeRune RuneError @ utf8_coerce src
                else take sz (c # src) @ utf8_coerce (drop (sz - 1) src)))"
  by pat_completeness auto
termination
  by (relation "measure length") auto




subsection \<open>\<^verbatim>\<open>json.Unmarshal\<close> into a \<^verbatim>\<open>StatePayload\<close>\<close>

text \<open>
  The decoder reads one JSON value, surrounded by optional white space. Numbers are
  checked for their syntax only, since no field of the payload is a number. \<open>scanString\<close>
  reads a string literal after its opening quote and returns its value and the rest of
  the input: escapes are resolved (a lone surrogate becomes U+FFFD), control characters
  are refused, and bytes that are not well-formed UTF-8 become U+FFFD. \<open>app\<close> puts a prefix
  before the value that the rest of the scan returns.
\<close>

datatype json =
    JNull
  | JBool bool
  | JNumber
  | JString string
  | JArray "json list"
  | JObject "(string \<times> json) list"

definition isSpace :: "char \<Rightarrow> bool" where
  "isSpace c = (c = CHR '' '' \<or> c = CHR 0x09 \<or> c = CHR 0x0D \<or> c = CHR 0x0A)"

definition skipSpace :: "string \<Rightarrow> string" where
  "skipSpace = dropWhile isSpace"

definition hexval :: "char \<Rightarrow> nat option" where
  "hexval c =
     (let b = byte c in
      if 0x30 \<le> b \<and> b \<le> 0x39 then Some (b - 0x30)
      else if 0x61 \<le> b \<and> b \<le> 0x66 then Some (b - 0x61 + 10)
      else if 0x41 \<le> b \<and> b \<le> 0x46 then Some (b - 0x41 + 10)
      else None)"

definition getu4 :: "char \<Rightarrow> char \<Rightarrow> char \<Rightarrow> char \<Rightarrow> nat option" where
  "getu4 h1 h2 h3 h4 =
     (case (hexval h1, hexval h2, hexval h3, hexval h4) of
        (Some a, Some b, Some c, Some d) \<Rightarrow> Some (a * 4096 + b * 256 + c * 16 + d)
      | _ \<Rightarrow> None)"

definition app :: "string \<Rightarrow> (string \<times> string) option \<Rightarrow> (string \<times> string) option" where
  "app pre r = map_option (\<lambda>(s, rest). (pre @ s, rest)) r"

function scanString :: "string \<Rightarrow> (string \<times> string) option" where
  "scanString [] = None"
| "scanString (c # cs) =
     (if c = dquote then Some ([], cs)
      else if c = backslash then
        (case cs of
           [] \<Rightarrow> None
         | e # cs1 \<Rightarrow>
             if e = dquote \<or> e = backslash \<or> e = CHR ''/'' then app [e] (scanString cs1)
             else if e = CHR ''b'' then app [chr 0x08] (scanString cs1)
             else if e = CHR ''f'' then app [chr 0x0C] (scanString cs1)
             else if e = CHR ''n'' then app [chr 0x0A] (scanString cs1)
             else if e = CHR ''r'' then app [chr 0x0D] (scanString cs1)
             else if e = CHR ''t'' then app [chr 0x09] (scanString cs1)
             else if e = CHR ''u'' then
               (case cs1 of
                  h1 # h2 # h3 # h4 # cs2 \<Rightarrow>
                    (case getu4 h1 h2 h3 h4 of
                       None \<Rightarrow> None
                     | Some rr \<Rightarrow>
                         if 0xD800 \<le> rr \<and> rr < 0xE000 then
                           (case cs2 of
                              e1 # e2 # g1 # g2 # g3 # g4 # cs3 \<Rightarrow>
                                (case (if e1 = backslash \<and> e2 = CHR ''u''
                                       then getu4 g1 g2 g3 g4 else None) of
                                   Some rr1 \<Rightarrow>
                                     if rr < 0xDC00 \<and> 0xDC00 \<le> rr1 \<and> rr1 < 0xE000 then
                                       app (EncodeRune (0x10000 + (rr - 0xD800) * 1024 + (rr1 - 0xDC00)))
                                         (scanString cs3)
                                     else app (EncodeRune RuneError) (scanString cs2)
                                 | None \<Rightarrow> app (EncodeRune RuneError) (scanString cs2))
                            | _ \<Rightarrow> app (EncodeRune RuneError) (scanString cs2))
                         else app (EncodeRune rr) (scanString cs2))
                | _ \<Rightarrow> None)
             else None)
      else if byte c < 0x20 then None
      else if byte c < 0x80 then app [c] (scanString cs)
      else (case DecodeRune (c # cs) of
              (rr, sz) \<Rightarrow> app (EncodeRune rr) (scanString (drop (sz - 1) cs))))"
  by pat_completeness auto
termination
  by (relation "measure length") auto

definition isDigit :: "char \<Rightarrow> bool" where
  "isDigit c = (0x30 \<le> byte c \<and> byte c \<le> 0x39)"

definition scanExponent :: "string \<Rightarrow> string option" where
  "scanExponent cs =
     (case cs of
        [] \<Rightarrow> Some cs
      | e # r \<Rightarrow>
          if e = CHR ''e'' \<or> e = CHR ''E'' then
            (let r1 = (case r of
                         [] \<Rightarrow> r
                       | s # r' \<Rightarrow> if s = CHR ''+'' \<or> s = CHR ''-'' then r' else r)
             in case r1 of
                  [] \<Rightarrow> None
                | d # r2 \<Rightarrow> if isDigit d then Some (dropWhile isDigit r2) else None)
          else Some cs)"

definition scanFraction :: "string \<Rightarrow> string option" where
  "scanFraction cs =
     (case cs of
        [] \<Rightarrow> Some cs
      | p # r \<Rightarrow>
          if p = CHR ''.'' then
            (case r of
               [] \<Rightarrow> None
             | d # r1 \<Rightarrow> if isDigit d then scanExponent (dropWhile isDigit r1) else None)
          else scanExponent cs)"

definition scanNumber :: "string \<Rightarrow> string option" where
  "scanNumber cs =
     (let cs1 = (case cs of [] \<Rightarrow> cs | m # r \<Rightarrow> if m = CHR ''-'' then r else cs)
      in case cs1 of
           [] \<Rightarrow> None
         | d # r \<Rightarrow>
             if d = CHR ''0'' then scanFraction r
             else if isDigit d then scanFraction (dropWhile isDigit r)
             else None)"

definition scanLiteral :: "string \<Rightarrow> (json \<times> string) option" where
  "scanLiteral cs =
     (if take 4 cs = ''true'' then Some (JBool True, drop 4 cs)
      else if take 5 cs = ''false'' then Some (JBool False, drop 5 cs)
      else if take 4 cs = ''null'' then Some (JNull, drop 4 cs)
      else map_option (\<lambda>rest. (JNumber, rest)) (scanNumber cs))"

text \<open>
  Values, object members and array elements. The first argument bounds the nesting depth
  and the number of members; \<open>parseJSON\<close> starts with more than the length of the input,
  which no input can exhaust.
\<close>

fun parseValue :: "nat \<Rightarrow> string \<Rightarrow> (json \<times> string) option"
  and parseMembers :: "nat \<Rightarrow> string \<Rightarrow> ((string \<times> json) list \<times> string) option"
  and parseElements :: "nat \<Rightarrow> string \<Rightarrow> (json list \<times> string) option"
where
  "parseValue 0 cs = None"
| "parseValue (Suc n) cs =
     (case skipSpace cs of
        [] \<Rightarrow> None
      | c # r \<Rightarrow>
          if c = CHR ''{'' then
            (case skipSpace r of
               [] \<Rightarrow> None
             | c' # r' \<Rightarrow>
                 if c' = CHR ''}'' then Some (JObject [], r')
                 else map_option (\<lambda>(ms, rest). (JObject ms, rest)) (parseMembers n (c' # r')))
          else if c = CHR ''['' then
            (case skipSpace r of
               [] \<Rightarrow> None
             | c' # r' \<Rightarrow>
                 if c' = CHR '']'' then Some (JArray [], r')
                 else map_option (\<lambda>(vs, rest). (JArray vs, rest)) (parseElements n (c' # r')))
          else if c = dquote then
            map_option (\<lambda>(s, rest). (JString s, rest)) (scanString r)
          else scanLiteral (c # r))"
| "parseMembers 0 cs = None"
| "parseMembers (Suc n) cs =
     (case skipSpace cs of
        [] \<Rightarrow> None
      | c # r \<Rightarrow>
          if c = dquote then
            (case scanString r of
               None \<Rightarrow> None
             | Some (key, r1) \<Rightarrow>
                 (case skipSpace r1 of
                    [] \<Rightarrow> None
                  | c1 # r2 \<Rightarrow>
                      if c1 = CHR '':'' then
                        (case parseValue n r2 of
                           None \<Rightarrow> None
                         | Some (v, r3) \<Rightarrow>
                             (case skipSpace r3 of
                                [] \<Rightarrow> None
                              | c3 # r4 \<Rightarrow>
                                  if c3 = CHR '','' then
                                    map_option (\<lambda>(ms, rest). ((key, v) # ms, rest))
                                      (parseMembers n r4)
                                  else if c3 = CHR ''}'' then Some ([(key, v)], r4)
                                  else None))
                      else None))
          else None)"
| "parseElements 0 cs = None"
| "parseElements (Suc n) cs =
     (case parseValue n cs of
        None \<Rightarrow> None
      | Some (v, r1) \<Rightarrow>
          (case skipSpace r1 of
             [] \<Rightarrow> None
           | c # r2 \<Rightarrow>
               if c = CHR '','' then
                 map_option (\<lambda>(vs, rest). (v # vs, rest)) (parseElements n r2)
               else if c = CHR '']'' then Some ([v], r2)
               else None))"







subsection \<open>\<^verbatim>\<open>EncodeState\<close> and \<^verbatim>\<open>DecodeState\<close>\<close>




section \<open>Test fixtures\<close>

text \<open>
  A concrete environment and world on which the operations are run: one tenant
  \<open>tenantX\<close> with every provider configured, a Redis without faults, an Instagram
  refresh endpoint and a Facebook exchange endpoint that answer 200 with a new access
  token \<open>new456\<close> valid for 60 days, and a stored token \<open>tok123\<close> that expired one
  second ago and has no refresh token. The JSON codecs are tables for the values used.
\<close>

definition fixture_provider :: ProviderConfig where
  "fixture_provider = \<lparr>ClientID = ''client-id'', ClientSecret = ''client-secret'', Scopes = [''basic'']\<rparr>"

definition fixture_config :: Config where
  "fixture_config =
     \<lparr>Servers = [''tenantX'' \<mapsto>
        \<lparr>YouTube = fixture_provider, X = fixture_provider, Facebook = fixture_provider,
         TikTok = fixture_provider, Instagram = fixture_provider\<rparr>]\<rparr>"

definition fixture_now :: time where
  "fixture_now = 63000000000 * Second"

definition fixture_stale :: Token where
  "fixture_stale = \<lparr>AccessToken = ''tok123'', TokenType = ''bearer'', RefreshToken = [],
                     Expiry = fixture_now - 1 * Second\<rparr>"

definition fixture_env :: Env where
  "fixture_env =
     \<lparr>time_Now = fixture_now,
      config = fixture_config,
      redis_fault = (\<lambda>n. None),
      transport = (\<lambda>req. if URL req = ''https://graph.instagram.com/refresh_access_token''
                              \<or> URL req = ''https://graph.facebook.com/oauth/access_token''
                           then Reply 200 (Inr ''{new456}'')
                           else SendError (Errorf ''connection refused'')),
      oauth2lib = (\<lambda>c. Inl (Errorf ''oauth2: cannot fetch token'')),
      newRequestErr = (\<lambda>req. None),
      json_Marshal_Token = (\<lambda>t. Inr (''json:'' @ AccessToken t @ '':'' @ RefreshToken t)),
      json_Unmarshal_Token = (\<lambda>d. if d = ''json:tok123:'' then Inr fixture_stale
                                    else Inl (Errorf ''invalid character'')),
      json_Unmarshal_tokenResponse = (\<lambda>b. if b = ''{new456}''
           then Inr \<lparr>access_token = ''new456'', token_type = ''bearer'', expires_in = 5184000,
                     refresh_token = [], scope = []\<rparr>
           else Inl (Errorf ''unexpected end of JSON input''))\<rparr>"

definition fixture_world :: World where
  "fixture_world =
     \<lparr>db = [''token:tenantX:instagram:user1'' \<mapsto> ''json:tok123:'',
            ''token:tenantX:youtube:user1'' \<mapsto> ''json:tok123:'',
            ''token:tenantX:facebook:user1'' \<mapsto> ''not json''],
      redis_calls = 0, net_log = [], logs = []\<rparr>"

section \<open>Properties\<close>

subsection \<open>Auxiliary facts\<close>

lemmas redis_defs = next_fault_def redis_Ping_def redis_Get_def redis_Set_def redis_Del_def
lemmas fixture_defs = fixture_env_def fixture_world_def fixture_config_def fixture_provider_def
  fixture_now_def fixture_stale_def
lemmas time_defs = IsZero_def Add_def After_def Minute_def Second_def int64_def
lemmas url_defs = XTokenURL_def InstagramTokenURL_def FacebookTokenURL_def YouTubeTokenURL_def TikTokTokenURL_def
  XAuthURL_def InstagramAuthURL_def FacebookAuthURL_def YouTubeAuthURL_def TikTokAuthURL_def
lemmas run_defs = GetValidToken_def ForceRefreshToken_def IsTokenValid_def GetToken_def SaveToken_def
  TokenKey_def isTokenExpired_def refreshToken_def GetServerOAuthConfig_def mkOAuth2Config_def
  OAuthService_RefreshToken_def refreshTokenWithInstagram_def refreshTokenWithFacebook_def
  refreshTokenWithX_def doTokenRequest_def call_transport_def call_oauth2lib_def setExpiry_def
  log_Info_def log_Error_def ExchangeCode_def exchangeInstagramToken_def exchangeFacebookToken_def
  exchangeCodeWithPKCE_def

lemma GetToken_frame:
  "net_log (snd (GetToken env w u p s)) = net_log w \<and> db (snd (GetToken env w u p s)) = db w"
  by (simp add: GetToken_def redis_defs Let_def split: option.splits sum.splits prod.splits redis_reply.splits)

lemma SaveToken_net_log: "net_log (snd (SaveToken env w u p s t)) = net_log w"
  by (simp add: SaveToken_def redis_defs Let_def split: option.splits sum.splits prod.splits)

lemma SaveToken_db:
  "SaveToken env w u p s t = (r, w') \<Longrightarrow>
     (case r of Some e \<Rightarrow> db w' = db w
      | None \<Rightarrow> \<exists>data. json_Marshal_Token env t = Inr data \<and> db w' = (db w)(TokenKey u p s \<mapsto> data))"
  by (auto simp add: SaveToken_def redis_defs Let_def split: option.splits sum.splits prod.splits)

lemma doTokenRequest_Inr:
  "doTokenRequest env w req f = (Inr tr, w') \<Longrightarrow>
     \<exists>body. transport env req = Reply 200 (Inr body) \<and> json_Unmarshal_tokenResponse env body = Inr tr"
  by (auto simp add: doTokenRequest_def call_transport_def split: option.splits http_reply.splits sum.splits if_splits)

lemma doTokenRequest_snd:
  "snd (doTokenRequest env w req f) =
     (if newRequestErr env req = None then w\<lparr>net_log := net_log w @ [Do req]\<rparr> else w)"
  by (auto simp add: doTokenRequest_def call_transport_def split: option.splits http_reply.splits sum.splits if_splits)

lemma doTokenRequest_fst: "fst (doTokenRequest env w req f) = fst (doTokenRequest env w0 req f)"
  by (auto simp add: doTokenRequest_def call_transport_def split: option.splits http_reply.splits sum.splits if_splits)

lemma token_call_shape:
  "(case doTokenRequest env w req f of
      (Inl e, w1) \<Rightarrow> (Inl e, w1)
    | (Inr tr, w1) \<Rightarrow> (Inr (g tr), w1))
   = (map_sum id g (fst (doTokenRequest env w req f)), snd (doTokenRequest env w req f))"
  by (simp split: prod.splits sum.splits)

lemmas token_call_defs = exchangeCodeWithPKCE_def exchangeInstagramToken_def exchangeFacebookToken_def
  refreshTokenWithX_def refreshTokenWithInstagram_def refreshTokenWithFacebook_def

lemma token_call_db:
  "db (snd (exchangeCodeWithPKCE env w s c v)) = db w"
  "db (snd (exchangeInstagramToken env w s a)) = db w"
  "db (snd (exchangeFacebookToken env w s a)) = db w"
  "db (snd (refreshTokenWithX env w s a)) = db w"
  "db (snd (refreshTokenWithInstagram env w s a)) = db w"
  "db (snd (refreshTokenWithFacebook env w s a)) = db w"
  by (simp_all add: token_call_defs Let_def token_call_shape doTokenRequest_snd)

lemma token_call_fst:
  "fst (exchangeInstagramToken env w s a) = fst (exchangeInstagramToken env w0 s a)"
  "fst (exchangeFacebookToken env w s a) = fst (exchangeFacebookToken env w0 s a)"
  using doTokenRequest_fst [of env w _ _ w0]
  by (simp_all add: token_call_defs Let_def token_call_shape)

lemma OAuthService_RefreshToken_db: "db (snd (OAuthService_RefreshToken env w s a)) = db w"
  by (simp add: OAuthService_RefreshToken_def token_call_db call_oauth2lib_def split: sum.splits)


lemma GetToken_absent:
  "db w (TokenKey u p s) = None \<Longrightarrow> \<exists>e. fst (GetToken env w u p s) = Inl e"
  by (simp add: GetToken_def redis_defs Let_def split: option.splits sum.splits prod.splits redis_reply.splits)

lemma GetToken_world:
  "GetToken env w u p s = (r, w1) \<Longrightarrow> net_log w1 = net_log w \<and> db w1 = db w"
  using GetToken_frame [of env w u p s] by simp

subsection \<open>Claims\<close>

text \<open>
  C1. Expiry safety margin. With the clock reading \<open>now\<close> not before the zero instant:
  a token expiring at now + 4min59s is classified Stale (expired), a token expiring at
  now + 5min01s is classified Valid (not expired), and a token whose Expiry is the zero
  time is Stale whatever the clock reads. The other fields of the token play no part.
\<close>

theorem isTokenExpired_safety_margin:
  assumes "0 \<le> now"
  shows "isTokenExpired now (Some (t\<lparr>Expiry := Add now (4 * Minute + 59 * Second)\<rparr>))
       \<and> \<not> isTokenExpired now (Some (t\<lparr>Expiry := Add now (5 * Minute + 1 * Second)\<rparr>))
       \<and> isTokenExpired now' (Some (t\<lparr>Expiry := 0\<rparr>))"
  using assms
  by (simp add: isTokenExpired_def IsZero_def Add_def After_def Minute_def Second_def)

theorem isTokenExpired_safety_margin_witness:
  "(0::int) \<le> 63000000000000000000
   \<and> isTokenExpired 63000000000000000000
        (Some \<lparr>AccessToken = ''a'', TokenType = ''bearer'', RefreshToken = ''r'',
               Expiry = 63000000299000000000\<rparr>)
   \<and> \<not> isTokenExpired 63000000000000000000
        (Some \<lparr>AccessToken = ''a'', TokenType = ''bearer'', RefreshToken = ''r'',
               Expiry = 63000000301000000000\<rparr>)
   \<and> isTokenExpired 5
        (Some \<lparr>AccessToken = ''a'', TokenType = ''bearer'', RefreshToken = ''r'',
               Expiry = 0\<rparr>)"
  using isTokenExpired_safety_margin
    [of 63000000000000000000
        "\<lparr>AccessToken = ''a'', TokenType = ''bearer'', RefreshToken = ''r'', Expiry = 1\<rparr>" 5]
  by (simp add: Add_def Minute_def Second_def)

text \<open>
  C10. \<^verbatim>\<open>IsTokenValid\<close> never returns an error: its error component is \<^verbatim>\<open>nil\<close> for every
  identity, environment and world, and whenever the read from the Credential Store fails,
  for whatever reason (connection failure, transport error of the \<^verbatim>\<open>GET\<close>, key not found,
  record that does not deserialize), the result is \<^verbatim>\<open>(false, nil)\<close>.
\<close>

theorem IsTokenValid_never_errors:
  "snd (fst (IsTokenValid env w u p s)) = None
   \<and> (\<forall>e. fst (GetToken env w u p s) = Inl e \<longrightarrow> fst (IsTokenValid env w u p s) = (False, None))"
  by (auto simp add: IsTokenValid_def split: prod.splits sum.splits)

theorem IsTokenValid_never_errors_witness:
  "fst (GetToken (fixture_env\<lparr>redis_fault := (\<lambda>n. Some (Errorf ''dial tcp: connection refused''))\<rparr>)
          fixture_world ''user1'' ''instagram'' ''tenantX'')
     = Inl (Wrap ''redis connection failed'' (Errorf ''dial tcp: connection refused''))
   \<and> fst (IsTokenValid (fixture_env\<lparr>redis_fault := (\<lambda>n. Some (Errorf ''dial tcp: connection refused''))\<rparr>)
          fixture_world ''user1'' ''instagram'' ''tenantX'') = (False, None)
   \<and> fst (GetToken fixture_env fixture_world ''user1'' ''facebook'' ''tenantX'')
     = Inl (Wrap ''failed to unmarshal token'' (Errorf ''invalid character''))
   \<and> fst (IsTokenValid fixture_env fixture_world ''user1'' ''facebook'' ''tenantX'') = (False, None)"
proof -
  let ?env = "fixture_env\<lparr>redis_fault := (\<lambda>n. Some (Errorf ''dial tcp: connection refused''))\<rparr>"
  have a: "fst (GetToken ?env fixture_world ''user1'' ''instagram'' ''tenantX'')
     = Inl (Wrap ''redis connection failed'' (Errorf ''dial tcp: connection refused''))"
    by (simp add: GetToken_def redis_defs TokenKey_def fixture_env_def fixture_world_def)
  have b: "fst (GetToken fixture_env fixture_world ''user1'' ''facebook'' ''tenantX'')
     = Inl (Wrap ''failed to unmarshal token'' (Errorf ''invalid character''))"
    by (simp add: GetToken_def redis_defs TokenKey_def fixture_env_def fixture_world_def)
  from a IsTokenValid_never_errors [of ?env fixture_world "''user1''" "''instagram''" "''tenantX''"]
  have a': "fst (IsTokenValid ?env fixture_world ''user1'' ''instagram'' ''tenantX'') = (False, None)"
    by blast
  from b IsTokenValid_never_errors [of fixture_env fixture_world "''user1''" "''facebook''" "''tenantX''"]
  have b': "fst (IsTokenValid fixture_env fixture_world ''user1'' ''facebook'' ''tenantX'') = (False, None)"
    by blast
  from a a' b b' show ?thesis by blast
qed

text \<open>
  C7. Force refresh with nothing cached: when the Credential Store holds no record under
  the identity's key, \<^verbatim>\<open>ForceRefreshToken\<close> fails with the error \<^verbatim>\<open>OAuth token not found\<close>
  (which the handler reports as \<^verbatim>\<open>TOKEN_NOT_FOUND\<close>), makes no provider call and leaves
  the store as it was, whatever faults Redis shows.
\<close>

theorem ForceRefreshToken_nothing_cached:
  assumes "db w (TokenKey userID provider serverName) = None"
  shows "fst (ForceRefreshToken env w userID provider serverName) = Inl (Errorf ''OAuth token not found'')
       \<and> net_log (snd (ForceRefreshToken env w userID provider serverName)) = net_log w
       \<and> db (snd (ForceRefreshToken env w userID provider serverName)) = db w"
proof -
  obtain e where e: "fst (GetToken env w userID provider serverName) = Inl e"
    using GetToken_absent [OF assms] by blast
  obtain w1 where g: "GetToken env w userID provider serverName = (Inl e, w1)"
    using e by (cases "GetToken env w userID provider serverName") auto
  have "net_log w1 = net_log w \<and> db w1 = db w"
    using GetToken_world [OF g] .
  then show ?thesis
    by (simp add: ForceRefreshToken_def g log_Error_def)
qed

theorem ForceRefreshToken_nothing_cached_witness:
  "db fixture_world (TokenKey ''user2'' ''x'' ''tenantX'') = None
   \<and> fst (ForceRefreshToken fixture_env fixture_world ''user2'' ''x'' ''tenantX'')
       = Inl (Errorf ''OAuth token not found'')
   \<and> net_log (snd (ForceRefreshToken fixture_env fixture_world ''user2'' ''x'' ''tenantX'')) = []"
proof -
  have h: "db fixture_world (TokenKey ''user2'' ''x'' ''tenantX'') = None"
    by (simp add: fixture_world_def TokenKey_def)
  have n: "net_log fixture_world = []"
    by (simp add: fixture_world_def)
  from ForceRefreshToken_nothing_cached [OF h, of fixture_env] h n show ?thesis
    by simp
qed

lemma refreshToken_unavailable:
  assumes "provider \<noteq> ''instagram''" "RefreshToken token = []"
  shows "refreshToken env w userID provider serverName token
         = (Inl (Errorf ''refresh token not available''), token, log_Error ''refresh token not found'' w)"
  using assms by (simp add: refreshToken_def)

lemma refreshToken_instagram_net_log:
  assumes "AccessToken token \<noteq> []" "Servers (config env) serverName = Some sc"
    and "newRequestErr env
           \<lparr>Method = ''GET'', URL = ''https://graph.instagram.com/refresh_access_token'',
            Form = [(''grant_type'', ''ig_refresh_token''), (''access_token'', AccessToken token)],
            BasicAuth = None\<rparr> = None"
  shows "net_log (snd (snd (refreshToken env w userID ''instagram'' serverName token)))
         = net_log w @ [Do \<lparr>Method = ''GET'', URL = ''https://graph.instagram.com/refresh_access_token'',
            Form = [(''grant_type'', ''ig_refresh_token''), (''access_token'', AccessToken token)],
            BasicAuth = None\<rparr>]"
proof -
  let ?req = "\<lparr>Method = ''GET'', URL = ''https://graph.instagram.com/refresh_access_token'',
            Form = [(''grant_type'', ''ig_refresh_token''), (''access_token'', AccessToken token)],
            BasicAuth = None\<rparr>"
  let ?cfg = "mkOAuth2Config (Instagram sc) InstagramAuthURL InstagramTokenURL []"
  have cfg: "GetServerOAuthConfig (config env) ''instagram'' serverName [] = Inr ?cfg"
    using assms(2) by (simp add: GetServerOAuthConfig_def)
  have url: "TokenURL ?cfg = ''https://api.instagram.com/oauth/access_token''"
    by (simp add: mkOAuth2Config_def InstagramTokenURL_def)
  have r: "OAuthService_RefreshToken env w ?cfg (AccessToken token)
           = refreshTokenWithInstagram env w ?cfg (AccessToken token)"
    by (simp add: OAuthService_RefreshToken_def url)
  have n: "net_log (snd (refreshTokenWithInstagram env w ?cfg (AccessToken token))) = net_log w @ [Do ?req]"
    using assms(3)
    by (simp add: refreshTokenWithInstagram_def Let_def token_call_shape doTokenRequest_snd)
  obtain r1 w1 where rt: "refreshTokenWithInstagram env w ?cfg (AccessToken token) = (r1, w1)"
    by (cases "refreshTokenWithInstagram env w ?cfg (AccessToken token)") auto
  have n1: "net_log w1 = net_log w @ [Do ?req]"
    using n rt by simp
  show ?thesis
  proof (cases r1)
    case (Inl e)
    then show ?thesis
      using assms(1) n1 by (simp add: refreshToken_def cfg r rt log_Error_def)
  next
    case (Inr newToken)
    obtain r2 w2 where sv: "SaveToken env w1 userID ''instagram'' serverName newToken = (r2, w2)"
      by (cases "SaveToken env w1 userID ''instagram'' serverName newToken") auto
    have n2: "net_log w2 = net_log w1"
      using SaveToken_net_log [of env w1 userID "''instagram''" serverName newToken] sv by simp
    show ?thesis
      using assms(1) n1 n2 Inr
      by (cases r2) (simp_all add: refreshToken_def cfg r rt sv log_Error_def)
  qed
qed

lemma GetServerOAuthConfig_instagram:
  "GetServerOAuthConfig c ''instagram'' serverName r = Inr cfg \<Longrightarrow>
     TokenURL cfg = ''https://api.instagram.com/oauth/access_token''"
  by (auto simp add: GetServerOAuthConfig_def mkOAuth2Config_def InstagramTokenURL_def
        split: option.splits)

lemma refreshToken_unfold:
  "refreshToken env w userID provider serverName cur =
     (if provider = ''instagram'' \<and> AccessToken cur = [] then
        (Inl (Errorf ''instagram access token not available''), cur,
         log_Error ''instagram access token not found'' w)
      else if provider \<noteq> ''instagram'' \<and> RefreshToken cur = [] then
        (Inl (Errorf ''refresh token not available''), cur, log_Error ''refresh token not found'' w)
      else
        (let cur1 = (if provider = ''instagram'' then cur\<lparr>RefreshToken := AccessToken cur\<rparr> else cur)
         in case GetServerOAuthConfig (config env) provider serverName [] of
              Inl e \<Rightarrow> (Inl (Wrap ''failed to get OAuth config'' e), cur1,
                        log_Error ''failed to get OAuth config'' w)
            | Inr oauthConfig \<Rightarrow>
                (case OAuthService_RefreshToken env w oauthConfig (RefreshToken cur1) of
                   (Inl e, w1) \<Rightarrow> (Inl (Wrap ''token refresh failed'' e), cur1,
                                   log_Error ''token refresh failed'' w1)
                 | (Inr newToken, w1) \<Rightarrow>
                     (case SaveToken env w1 userID provider serverName newToken of
                        (Some e, w2) \<Rightarrow> (Inl (Wrap ''failed to save refreshed token'' e), cur1,
                                        log_Error ''failed to save refreshed token'' w2)
                      | (None, w2) \<Rightarrow> (Inr newToken, cur1, w2)))))"
  by (simp add: refreshToken_def Let_def)

lemma refreshToken_Inr:
  assumes "refreshToken env w userID provider serverName cur = (Inr t, cur', w')"
  shows "\<exists>cfg w1. GetServerOAuthConfig (config env) provider serverName [] = Inr cfg
           \<and> OAuthService_RefreshToken env w cfg
                (if provider = ''instagram'' then AccessToken cur else RefreshToken cur) = (Inr t, w1)
           \<and> SaveToken env w1 userID provider serverName t = (None, w')"
proof -
  let ?a = "if provider = ''instagram'' then AccessToken cur else RefreshToken cur"
  from assms have ne: "\<not> (provider = ''instagram'' \<and> AccessToken cur = [])"
    "\<not> (provider \<noteq> ''instagram'' \<and> RefreshToken cur = [])"
    by (auto simp add: refreshToken_unfold split: if_splits)
  show ?thesis
  proof (cases "GetServerOAuthConfig (config env) provider serverName []")
    case (Inl e)
    with assms ne show ?thesis by (simp add: refreshToken_unfold Let_def)
  next
    case (Inr cfg)
    obtain r1 w1 where r1: "OAuthService_RefreshToken env w cfg ?a = (r1, w1)"
      by (cases "OAuthService_RefreshToken env w cfg ?a") auto
    show ?thesis
    proof (cases r1)
      case (Inl e)
      with assms ne Inr r1 show ?thesis
        by (simp add: refreshToken_unfold Let_def split: if_splits)
    next
      case newTok: (Inr newToken)
      obtain r2 w2 where r2: "SaveToken env w1 userID provider serverName newToken = (r2, w2)"
        by (cases "SaveToken env w1 userID provider serverName newToken") auto
      from assms ne Inr r1 newTok r2 show ?thesis
        by (cases r2) (auto simp add: refreshToken_unfold Let_def split: if_splits)
    qed
  qed
qed

lemma refreshToken_Inl_db:
  assumes "refreshToken env w userID provider serverName cur = (Inl e, cur', w')"
  shows "db w' = db w"
proof -
  let ?a = "if provider = ''instagram'' then AccessToken cur else RefreshToken cur"
  show ?thesis
  proof (cases "(provider = ''instagram'' \<and> AccessToken cur = [])
              \<or> (provider \<noteq> ''instagram'' \<and> RefreshToken cur = [])")
    case True
    with assms show ?thesis
      by (auto simp add: refreshToken_unfold log_Error_def split: if_splits)
  next
    case ne: False
    show ?thesis
    proof (cases "GetServerOAuthConfig (config env) provider serverName []")
      case (Inl e0)
      with assms ne show ?thesis
        by (auto simp add: refreshToken_unfold Let_def log_Error_def split: if_splits)
    next
      case (Inr cfg)
      obtain r1 w1 where r1: "OAuthService_RefreshToken env w cfg ?a = (r1, w1)"
        by (cases "OAuthService_RefreshToken env w cfg ?a") auto
      have d1: "db w1 = db w"
        using OAuthService_RefreshToken_db [of env w cfg ?a] r1 by simp
      show ?thesis
      proof (cases r1)
        case (Inl e1)
        with assms ne Inr r1 d1 show ?thesis
          by (auto simp add: refreshToken_unfold Let_def log_Error_def split: if_splits)
      next
        case newTok: (Inr newToken)
        obtain r2 w2 where r2: "SaveToken env w1 userID provider serverName newToken = (r2, w2)"
          by (cases "SaveToken env w1 userID provider serverName newToken") auto
        from SaveToken_db [OF r2] d1 assms ne Inr r1 newTok r2 show ?thesis
          by (cases r2) (auto simp add: refreshToken_unfold Let_def log_Error_def split: if_splits)
      qed
    qed
  qed
qed

lemma refreshToken_Inr_db:
  assumes "refreshToken env w userID provider serverName cur = (Inr t, cur', w')"
  shows "\<exists>data. json_Marshal_Token env t = Inr data
            \<and> db w' = (db w)(TokenKey userID provider serverName \<mapsto> data)"
proof -
  from refreshToken_Inr [OF assms] obtain cfg w1 a where
    r: "OAuthService_RefreshToken env w cfg a = (Inr t, w1)"
    and s: "SaveToken env w1 userID provider serverName t = (None, w')"
    by blast
  have "db w1 = db w"
    using OAuthService_RefreshToken_db [of env w cfg a] r by simp
  with SaveToken_db [OF s] show ?thesis by simp
qed

lemma refreshToken_current:
  "fst (snd (refreshToken env w userID provider serverName cur)) =
     (if provider = ''instagram'' \<and> AccessToken cur \<noteq> []
      then cur\<lparr>RefreshToken := AccessToken cur\<rparr> else cur)"
  by (simp add: refreshToken_unfold Let_def split: sum.splits prod.splits option.splits)

text \<open>
  C5. The claim that the token read from the store is never changed fails for Instagram:
  \<^verbatim>\<open>refreshToken\<close> assigns the token's \<^verbatim>\<open>AccessToken\<close> to its \<^verbatim>\<open>RefreshToken\<close> field. Run
  on the fixture, the token object that was read with an empty \<^verbatim>\<open>RefreshToken\<close> holds
  \<open>tok123\<close> in that field when \<^verbatim>\<open>refreshToken\<close> returns.
\<close>

theorem refreshToken_mutates_instagram_token_counterexample:
  "fst (GetToken fixture_env fixture_world ''user1'' ''instagram'' ''tenantX'')
     = Inr \<lparr>AccessToken = ''tok123'', TokenType = ''bearer'', RefreshToken = [],
            Expiry = fixture_now - 1 * Second\<rparr>
   \<and> fst (snd (refreshToken fixture_env fixture_world ''user1'' ''instagram'' ''tenantX''
        \<lparr>AccessToken = ''tok123'', TokenType = ''bearer'', RefreshToken = [],
         Expiry = fixture_now - 1 * Second\<rparr>))
     = \<lparr>AccessToken = ''tok123'', TokenType = ''bearer'', RefreshToken = ''tok123'',
        Expiry = fixture_now - 1 * Second\<rparr>"
proof -
  have "fst (GetToken fixture_env fixture_world ''user1'' ''instagram'' ''tenantX'')
     = Inr \<lparr>AccessToken = ''tok123'', TokenType = ''bearer'', RefreshToken = [],
            Expiry = fixture_now - 1 * Second\<rparr>"
    by (simp add: GetToken_def redis_defs TokenKey_def fixture_env_def fixture_world_def
          fixture_stale_def)
  then show ?thesis
    by (simp add: refreshToken_current)
qed

text \<open>
  C5, amended. \<^verbatim>\<open>refreshToken\<close> leaves the token it was given unchanged for every
  provider other than Instagram; for Instagram with a non-empty \<^verbatim>\<open>AccessToken\<close> it
  overwrites the \<^verbatim>\<open>RefreshToken\<close> field of that in-memory token with the \<^verbatim>\<open>AccessToken\<close>
  and changes no other field. The record in the Credential Store is never edited: after
  \<^verbatim>\<open>refreshToken\<close>, \<^verbatim>\<open>GetValidToken\<close> or \<^verbatim>\<open>ForceRefreshToken\<close> the store is either
  unchanged (always so when the operation fails) or differs exactly by the returned
  token, serialized whole, under the identity's key.
\<close>

theorem token_manager_token_frame:
  "(refreshToken env w userID provider serverName cur = (r, cur', w') \<longrightarrow>
      cur' = (if provider = ''instagram'' \<and> AccessToken cur \<noteq> []
              then cur\<lparr>RefreshToken := AccessToken cur\<rparr> else cur)
      \<and> (\<forall>e. r = Inl e \<longrightarrow> db w' = db w)
      \<and> (\<forall>t. r = Inr t \<longrightarrow>
            (\<exists>data. json_Marshal_Token env t = Inr data
               \<and> db w' = (db w)(TokenKey userID provider serverName \<mapsto> data))))
   \<and> (GetValidToken env w userID provider serverName = (r, w') \<longrightarrow>
        (\<forall>e. r = Inl e \<longrightarrow> db w' = db w)
      \<and> (\<forall>t. r = Inr t \<longrightarrow> db w' = db w
            \<or> (\<exists>data. json_Marshal_Token env t = Inr data
               \<and> db w' = (db w)(TokenKey userID provider serverName \<mapsto> data))))
   \<and> (ForceRefreshToken env w userID provider serverName = (r, w') \<longrightarrow>
        (\<forall>e. r = Inl e \<longrightarrow> db w' = db w)
      \<and> (\<forall>t. r = Inr t \<longrightarrow>
            (\<exists>data. json_Marshal_Token env t = Inr data
               \<and> db w' = (db w)(TokenKey userID provider serverName \<mapsto> data))))"
proof (intro conjI impI)
  assume a: "refreshToken env w userID provider serverName cur = (r, cur', w')"
  show "cur' = (if provider = ''instagram'' \<and> AccessToken cur \<noteq> []
              then cur\<lparr>RefreshToken := AccessToken cur\<rparr> else cur)"
    using refreshToken_current [of env w userID provider serverName cur] a by simp
  show "\<forall>e. r = Inl e \<longrightarrow> db w' = db w"
    using refreshToken_Inl_db a by blast
  show "\<forall>t. r = Inr t \<longrightarrow>
            (\<exists>data. json_Marshal_Token env t = Inr data
               \<and> db w' = (db w)(TokenKey userID provider serverName \<mapsto> data))"
    using refreshToken_Inr_db a by blast
next
  assume a: "GetValidToken env w userID provider serverName = (r, w')"
  obtain g w1 where g: "GetToken env w userID provider serverName = (g, w1)"
    by (cases "GetToken env w userID provider serverName") auto
  have d1: "db w1 = db w"
    using GetToken_world [OF g] by simp
  let ?w2 = "log_Info ''token expired, attempting refresh'' w1"
  have d2: "db ?w2 = db w"
    using d1 by (simp add: log_Info_def)
  define rr where "rr token = fst (refreshToken env ?w2 userID provider serverName token)" for token
  define w3 where "w3 token = snd (snd (refreshToken env ?w2 userID provider serverName token))" for token
  define c3 where "c3 token = fst (snd (refreshToken env ?w2 userID provider serverName token))" for token
  have rt: "g = Inr token \<Longrightarrow>
      refreshToken env ?w2 userID provider serverName token = (rr token, c3 token, w3 token)" for token
    by (simp add: rr_def w3_def c3_def)
  show "\<forall>e. r = Inl e \<longrightarrow> db w' = db w"
  proof (intro allI impI)
    fix e assume r: "r = Inl e"
    show "db w' = db w"
    proof (cases g)
      case (Inl e0)
      with a g r d1 show ?thesis
        by (auto simp add: GetValidToken_def log_Error_def)
    next
      case (Inr token)
      show ?thesis
      proof (cases "rr token")
        case (Inl e1)
        from refreshToken_Inl_db [of env ?w2 userID provider serverName token e1]
          rt [OF Inr] Inl have "db (w3 token) = db w" using d2 by simp
        with a g r Inr rt [OF Inr] Inl show ?thesis
          by (auto simp add: GetValidToken_def log_Error_def log_Info_def split: if_splits)
      next
        case newTok: (Inr newToken)
        with a g r Inr rt [OF Inr] show ?thesis
          by (auto simp add: GetValidToken_def log_Error_def log_Info_def split: if_splits)
      qed
    qed
  qed
  show "\<forall>t. r = Inr t \<longrightarrow> db w' = db w
            \<or> (\<exists>data. json_Marshal_Token env t = Inr data
               \<and> db w' = (db w)(TokenKey userID provider serverName \<mapsto> data))"
  proof (intro allI impI)
    fix t assume r: "r = Inr t"
    show "db w' = db w
            \<or> (\<exists>data. json_Marshal_Token env t = Inr data
               \<and> db w' = (db w)(TokenKey userID provider serverName \<mapsto> data))"
    proof (cases g)
      case (Inl e0)
      with a g r show ?thesis
        by (auto simp add: GetValidToken_def)
    next
      case (Inr token)
      show ?thesis
      proof (cases "rr token")
        case (Inl e1)
        with a g r Inr rt [OF Inr] d1 show ?thesis
          by (auto simp add: GetValidToken_def log_Info_def split: if_splits)
      next
        case newTok: (Inr newToken)
        from refreshToken_Inr_db [of env ?w2 userID provider serverName token newToken]
          rt [OF Inr] newTok d2
        have "\<exists>data. json_Marshal_Token env newToken = Inr data
               \<and> db (w3 token) = (db w)(TokenKey userID provider serverName \<mapsto> data)"
          by simp
        with a g r Inr rt [OF Inr] newTok d1 show ?thesis
          by (auto simp add: GetValidToken_def log_Info_def split: if_splits)
      qed
    qed
  qed
next
  assume a: "ForceRefreshToken env w userID provider serverName = (r, w')"
  obtain g w1 where g: "GetToken env w userID provider serverName = (g, w1)"
    by (cases "GetToken env w userID provider serverName") auto
  have d1: "db w1 = db w"
    using GetToken_world [OF g] by simp
  let ?w2 = "log_Info ''force refreshing token'' w1"
  have d2: "db ?w2 = db w"
    using d1 by (simp add: log_Info_def)
  define rr where "rr token = fst (refreshToken env ?w2 userID provider serverName token)" for token
  define w3 where "w3 token = snd (snd (refreshToken env ?w2 userID provider serverName token))" for token
  define c3 where "c3 token = fst (snd (refreshToken env ?w2 userID provider serverName token))" for token
  have rt: "g = Inr token \<Longrightarrow>
      refreshToken env ?w2 userID provider serverName token = (rr token, c3 token, w3 token)" for token
    by (simp add: rr_def w3_def c3_def)
  show "\<forall>e. r = Inl e \<longrightarrow> db w' = db w"
  proof (intro allI impI)
    fix e assume r: "r = Inl e"
    show "db w' = db w"
    proof (cases g)
      case (Inl e0)
      with a g r d1 show ?thesis
        by (auto simp add: ForceRefreshToken_def log_Error_def)
    next
      case (Inr token)
      show ?thesis
      proof (cases "rr token")
        case (Inl e1)
        from refreshToken_Inl_db [of env ?w2 userID provider serverName token e1]
          rt [OF Inr] Inl have "db (w3 token) = db w" using d2 by simp
        with a g r Inr rt [OF Inr] Inl show ?thesis
          by (auto simp add: ForceRefreshToken_def log_Error_def log_Info_def)
      next
        case newTok: (Inr newToken)
        with a g r Inr rt [OF Inr] show ?thesis
          by (auto simp add: ForceRefreshToken_def log_Error_def log_Info_def)
      qed
    qed
  qed
  show "\<forall>t. r = Inr t \<longrightarrow>
            (\<exists>data. json_Marshal_Token env t = Inr data
               \<and> db w' = (db w)(TokenKey userID provider serverName \<mapsto> data))"
  proof (intro allI impI)
    fix t assume r: "r = Inr t"
    show "\<exists>data. json_Marshal_Token env t = Inr data
               \<and> db w' = (db w)(TokenKey userID provider serverName \<mapsto> data)"
    proof (cases g)
      case (Inl e0)
      with a g r show ?thesis
        by (auto simp add: ForceRefreshToken_def)
    next
      case (Inr token)
      show ?thesis
      proof (cases "rr token")
        case (Inl e1)
        with a g r Inr rt [OF Inr] show ?thesis
          by (auto simp add: ForceRefreshToken_def)
      next
        case newTok: (Inr newToken)
        from refreshToken_Inr_db [of env ?w2 userID provider serverName token newToken]
          rt [OF Inr] newTok d2
        have "\<exists>data. json_Marshal_Token env newToken = Inr data
               \<and> db (w3 token) = (db w)(TokenKey userID provider serverName \<mapsto> data)"
          by simp
        with a g r Inr rt [OF Inr] newTok show ?thesis
          by (auto simp add: ForceRefreshToken_def log_Info_def)
      qed
    qed
  qed
qed

lemma fixture_refresh_instagram:
  "fst (refreshToken fixture_env fixture_world ''user1'' ''instagram'' ''tenantX'' fixture_stale)
     = Inr \<lparr>AccessToken = ''new456'', TokenType = ''bearer'', RefreshToken = [],
            Expiry = fixture_now + 5184000 * Second\<rparr>"
  by (simp add: run_defs redis_defs fixture_defs time_defs url_defs)

lemma fixture_GetValidToken_instagram:
  "fst (GetValidToken fixture_env fixture_world ''user1'' ''instagram'' ''tenantX'')
     = Inr \<lparr>AccessToken = ''new456'', TokenType = ''bearer'', RefreshToken = [],
            Expiry = fixture_now + 5184000 * Second\<rparr>"
  by (simp add: run_defs redis_defs fixture_defs time_defs url_defs)

lemma fixture_ForceRefreshToken_instagram:
  "fst (ForceRefreshToken fixture_env fixture_world ''user1'' ''instagram'' ''tenantX'')
     = Inr \<lparr>AccessToken = ''new456'', TokenType = ''bearer'', RefreshToken = [],
            Expiry = fixture_now + 5184000 * Second\<rparr>"
  by (simp add: run_defs redis_defs fixture_defs time_defs url_defs)

lemma fixture_GetValidToken_youtube:
  "fst (GetValidToken fixture_env fixture_world ''user1'' ''youtube'' ''tenantX'')
     = Inl (Wrap ''token refresh failed'' (Errorf ''refresh token not available''))"
  by (simp add: run_defs redis_defs fixture_defs time_defs url_defs)

lemma fixture_marshal:
  "json_Marshal_Token fixture_env t = Inr (''json:'' @ AccessToken t @ '':'' @ RefreshToken t)"
  by (simp add: fixture_env_def)

theorem token_manager_token_frame_witness:
  "fst (refreshToken fixture_env fixture_world ''user1'' ''instagram'' ''tenantX'' fixture_stale)
     = Inr \<lparr>AccessToken = ''new456'', TokenType = ''bearer'', RefreshToken = [],
            Expiry = fixture_now + 5184000 * Second\<rparr>
   \<and> fst (snd (refreshToken fixture_env fixture_world ''user1'' ''instagram'' ''tenantX'' fixture_stale))
     = fixture_stale\<lparr>RefreshToken := ''tok123''\<rparr>
   \<and> db (snd (snd (refreshToken fixture_env fixture_world ''user1'' ''instagram'' ''tenantX'' fixture_stale)))
     = (db fixture_world)(''token:tenantX:instagram:user1'' \<mapsto> ''json:new456:'')
   \<and> fst (GetValidToken fixture_env fixture_world ''user1'' ''youtube'' ''tenantX'')
     = Inl (Wrap ''token refresh failed'' (Errorf ''refresh token not available''))
   \<and> db (snd (GetValidToken fixture_env fixture_world ''user1'' ''youtube'' ''tenantX''))
     = db fixture_world
   \<and> db (snd (ForceRefreshToken fixture_env fixture_world ''user1'' ''instagram'' ''tenantX''))
     = (db fixture_world)(''token:tenantX:instagram:user1'' \<mapsto> ''json:new456:'')"
proof -
  let ?new = "\<lparr>AccessToken = ''new456'', TokenType = ''bearer'', RefreshToken = [],
            Expiry = fixture_now + 5184000 * Second\<rparr>"
  let ?R = "refreshToken fixture_env fixture_world ''user1'' ''instagram'' ''tenantX'' fixture_stale"
  let ?G = "GetValidToken fixture_env fixture_world ''user1'' ''youtube'' ''tenantX''"
  let ?F = "ForceRefreshToken fixture_env fixture_world ''user1'' ''instagram'' ''tenantX''"
  have hR: "?R = (fst ?R, fst (snd ?R), snd (snd ?R))" by simp
  have hG: "?G = (fst ?G, snd ?G)" by simp
  have hF: "?F = (fst ?F, snd ?F)" by simp
  have at: "AccessToken fixture_stale = ''tok123''" by (simp add: fixture_stale_def)
  have key: "TokenKey ''user1'' ''instagram'' ''tenantX'' = ''token:tenantX:instagram:user1''"
    by (simp add: TokenKey_def)
  note T = token_manager_token_frame
  from T [of fixture_env fixture_world "''user1''" "''instagram''" "''tenantX''" fixture_stale
            "fst ?R" "fst (snd ?R)" "snd (snd ?R)"] hR
  have r1: "fst (snd ?R) = fixture_stale\<lparr>RefreshToken := ''tok123''\<rparr>"
    and r2: "\<exists>data. json_Marshal_Token fixture_env ?new = Inr data
               \<and> db (snd (snd ?R)) = (db fixture_world)(''token:tenantX:instagram:user1'' \<mapsto> data)"
    using fixture_refresh_instagram at key by auto
  from r2 have r3: "db (snd (snd ?R)) = (db fixture_world)(''token:tenantX:instagram:user1'' \<mapsto> ''json:new456:'')"
    by (auto simp add: fixture_marshal)
  from T [of fixture_env fixture_world "''user1''" "''youtube''" "''tenantX''" _ "fst ?G" _ "snd ?G"] hG
  have g: "db (snd ?G) = db fixture_world"
    using fixture_GetValidToken_youtube by auto
  from T [of fixture_env fixture_world "''user1''" "''instagram''" "''tenantX''" _ "fst ?F" _ "snd ?F"] hF
  have "\<exists>data. json_Marshal_Token fixture_env ?new = Inr data
               \<and> db (snd ?F) = (db fixture_world)(''token:tenantX:instagram:user1'' \<mapsto> data)"
    using fixture_ForceRefreshToken_instagram key by auto
  then have f: "db (snd ?F) = (db fixture_world)(''token:tenantX:instagram:user1'' \<mapsto> ''json:new456:'')"
    by (auto simp add: fixture_marshal)
  from fixture_refresh_instagram r1 r3 fixture_GetValidToken_youtube g f show ?thesis
    by blast
qed

text \<open>
  C3. The claim fails for Instagram: \<^verbatim>\<open>refreshTokenWithInstagram\<close> builds the new token
  without a \<^verbatim>\<open>RefreshToken\<close>. On the fixture (stored Instagram token \<open>tok123\<close>, expired one
  second ago, provider answering with the new access token \<open>new456\<close>), \<^verbatim>\<open>GetValidToken\<close>
  returns and stores a token whose \<^verbatim>\<open>AccessToken\<close> is \<open>new456\<close> and whose
  \<^verbatim>\<open>RefreshToken\<close> is empty.
\<close>

theorem instagram_refresh_RefreshToken_counterexample:
  "fst (OAuthService_RefreshToken fixture_env fixture_world
          (mkOAuth2Config fixture_provider InstagramAuthURL InstagramTokenURL []) ''tok123'')
     = Inr \<lparr>AccessToken = ''new456'', TokenType = ''bearer'', RefreshToken = [],
            Expiry = fixture_now + 5184000 * Second\<rparr>
   \<and> fst (GetValidToken fixture_env fixture_world ''user1'' ''instagram'' ''tenantX'')
     = Inr \<lparr>AccessToken = ''new456'', TokenType = ''bearer'', RefreshToken = [],
            Expiry = fixture_now + 5184000 * Second\<rparr>
   \<and> db (snd (GetValidToken fixture_env fixture_world ''user1'' ''instagram'' ''tenantX''))
         ''token:tenantX:instagram:user1''
     = Some ''json:new456:''
   \<and> json_Marshal_Token fixture_env
         \<lparr>AccessToken = ''new456'', TokenType = ''bearer'', RefreshToken = [],
          Expiry = fixture_now + 5184000 * Second\<rparr>
     = Inr ''json:new456:''"
  by (simp add: run_defs redis_defs fixture_defs time_defs url_defs)

lemma refreshTokenWithFacebook_Inr:
  assumes "refreshTokenWithFacebook env w s accessToken = (Inr t, w')"
  shows "\<exists>body tr.
           transport env
             \<lparr>Method = ''GET'', URL = ''https://graph.facebook.com/oauth/access_token'',
              Form = [(''grant_type'', ''fb_exchange_token''), (''client_id'', ClientID s),
                      (''client_secret'', ClientSecret s), (''fb_exchange_token'', accessToken)],
              BasicAuth = None\<rparr> = Reply 200 (Inr body)
         \<and> json_Unmarshal_tokenResponse env body = Inr tr
         \<and> AccessToken t = access_token tr \<and> RefreshToken t = access_token tr"
proof -
  let ?req = "\<lparr>Method = ''GET'', URL = ''https://graph.facebook.com/oauth/access_token'',
              Form = [(''grant_type'', ''fb_exchange_token''), (''client_id'', ClientID s),
                      (''client_secret'', ClientSecret s), (''fb_exchange_token'', accessToken)],
              BasicAuth = None\<rparr>"
  let ?f = "''token refresh failed: status=%d body=%s''"
  obtain r1 w1 where d: "doTokenRequest env w ?req ?f = (r1, w1)"
    by (cases "doTokenRequest env w ?req ?f") auto
  show ?thesis
  proof (cases r1)
    case (Inl e)
    with assms d show ?thesis by (simp add: refreshTokenWithFacebook_def)
  next
    case (Inr tr)
    from doTokenRequest_Inr [of env w ?req ?f tr w1] d Inr obtain body where
      b: "transport env ?req = Reply 200 (Inr body)" "json_Unmarshal_tokenResponse env body = Inr tr"
      by auto
    from assms d Inr have "AccessToken t = access_token tr \<and> RefreshToken t = access_token tr"
      by (auto simp add: refreshTokenWithFacebook_def setExpiry_def)
    with b show ?thesis by blast
  qed
qed

lemma refreshTokenWithInstagram_Inr:
  assumes "refreshTokenWithInstagram env w s accessToken = (Inr t, w')"
  shows "\<exists>body tr.
           transport env
             \<lparr>Method = ''GET'', URL = ''https://graph.instagram.com/refresh_access_token'',
              Form = [(''grant_type'', ''ig_refresh_token''), (''access_token'', accessToken)],
              BasicAuth = None\<rparr> = Reply 200 (Inr body)
         \<and> json_Unmarshal_tokenResponse env body = Inr tr
         \<and> AccessToken t = access_token tr \<and> RefreshToken t = []"
proof -
  let ?req = "\<lparr>Method = ''GET'', URL = ''https://graph.instagram.com/refresh_access_token'',
              Form = [(''grant_type'', ''ig_refresh_token''), (''access_token'', accessToken)],
              BasicAuth = None\<rparr>"
  let ?f = "''token refresh failed: status=%d body=%s''"
  obtain r1 w1 where d: "doTokenRequest env w ?req ?f = (r1, w1)"
    by (cases "doTokenRequest env w ?req ?f") auto
  show ?thesis
  proof (cases r1)
    case (Inl e)
    with assms d show ?thesis by (simp add: refreshTokenWithInstagram_def)
  next
    case (Inr tr)
    from doTokenRequest_Inr [of env w ?req ?f tr w1] d Inr obtain body where
      b: "transport env ?req = Reply 200 (Inr body)" "json_Unmarshal_tokenResponse env body = Inr tr"
      by auto
    from assms d Inr have "AccessToken t = access_token tr \<and> RefreshToken t = []"
      by (auto simp add: refreshTokenWithInstagram_def setExpiry_def)
    with b show ?thesis by blast
  qed
qed

lemma OAuthService_RefreshToken_facebook:
  "TokenURL s = FacebookTokenURL \<Longrightarrow>
     OAuthService_RefreshToken env w s a = refreshTokenWithFacebook env w s a"
  unfolding OAuthService_RefreshToken_def FacebookTokenURL_def
  by simp

lemma OAuthService_RefreshToken_instagram:
  "TokenURL s = InstagramTokenURL \<Longrightarrow>
     OAuthService_RefreshToken env w s a = refreshTokenWithInstagram env w s a"
  unfolding OAuthService_RefreshToken_def InstagramTokenURL_def
  by simp

lemma GetValidToken_refreshed:
  assumes found: "GetToken env w userID provider serverName = (Inr cur, w1)"
    and stale: "isTokenExpired (time_Now env) (Some cur)"
    and res: "GetValidToken env w userID provider serverName = (Inr t, w2)"
  shows "\<exists>c w3. refreshToken env (log_Info ''token expired, attempting refresh'' w1)
                  userID provider serverName cur = (Inr t, c, w3)
           \<and> db w2 = db w3"
proof -
  let ?R = "refreshToken env (log_Info ''token expired, attempting refresh'' w1)
                  userID provider serverName cur"
  have R: "?R = (fst ?R, fst (snd ?R), snd (snd ?R))" by simp
  show ?thesis
  proof (cases "fst ?R")
    case (Inl e)
    with res found stale R show ?thesis
      by (simp add: GetValidToken_def split: prod.splits)
  next
    case (Inr newToken)
    with res found stale R have "newToken = t \<and> db w2 = db (snd (snd ?R))"
      by (auto simp add: GetValidToken_def log_Info_def split: prod.splits)
    with Inr R show ?thesis by metis
  qed
qed


text \<open>
  C3, amended. Every successful Facebook refresh (the \<^verbatim>\<open>fb_exchange_token\<close> grant) returns a
  token whose \<^verbatim>\<open>AccessToken\<close> and \<^verbatim>\<open>RefreshToken\<close> are both the access token of the
  provider's response. Every successful Instagram refresh returns a token whose
  \<^verbatim>\<open>AccessToken\<close> is the access token of the response and whose \<^verbatim>\<open>RefreshToken\<close> is empty;
  in particular, after \<^verbatim>\<open>GetValidToken\<close> refreshes a stale Instagram token, the token
  returned has an empty \<^verbatim>\<open>RefreshToken\<close> and is the one stored under the identity's key.
\<close>

theorem exchange_token_grant_refresh_result:
  "(TokenURL s = FacebookTokenURL \<and> OAuthService_RefreshToken env w s accessToken = (Inr t, w')
      \<longrightarrow> (\<exists>body tr.
             transport env
               \<lparr>Method = ''GET'', URL = ''https://graph.facebook.com/oauth/access_token'',
                Form = [(''grant_type'', ''fb_exchange_token''), (''client_id'', ClientID s),
                        (''client_secret'', ClientSecret s), (''fb_exchange_token'', accessToken)],
                BasicAuth = None\<rparr> = Reply 200 (Inr body)
           \<and> json_Unmarshal_tokenResponse env body = Inr tr
           \<and> AccessToken t = access_token tr \<and> RefreshToken t = access_token tr))
   \<and> (TokenURL s = InstagramTokenURL \<and> OAuthService_RefreshToken env w s accessToken = (Inr t, w')
      \<longrightarrow> (\<exists>body tr.
             transport env
               \<lparr>Method = ''GET'', URL = ''https://graph.instagram.com/refresh_access_token'',
                Form = [(''grant_type'', ''ig_refresh_token''), (''access_token'', accessToken)],
                BasicAuth = None\<rparr> = Reply 200 (Inr body)
           \<and> json_Unmarshal_tokenResponse env body = Inr tr
           \<and> AccessToken t = access_token tr \<and> RefreshToken t = []))
   \<and> (GetToken env w userID ''instagram'' serverName = (Inr cur, w1)
        \<and> isTokenExpired (time_Now env) (Some cur)
        \<and> GetValidToken env w userID ''instagram'' serverName = (Inr t2, w2)
      \<longrightarrow> RefreshToken t2 = []
          \<and> (\<exists>data. json_Marshal_Token env t2 = Inr data
                \<and> db w2 (TokenKey userID ''instagram'' serverName) = Some data))"
proof (intro conjI impI)
  assume a: "TokenURL s = FacebookTokenURL \<and> OAuthService_RefreshToken env w s accessToken = (Inr t, w')"
  then have "refreshTokenWithFacebook env w s accessToken = (Inr t, w')"
    using OAuthService_RefreshToken_facebook [of s env w accessToken] by simp
  from refreshTokenWithFacebook_Inr [OF this]
  show "\<exists>body tr.
             transport env
               \<lparr>Method = ''GET'', URL = ''https://graph.facebook.com/oauth/access_token'',
                Form = [(''grant_type'', ''fb_exchange_token''), (''client_id'', ClientID s),
                        (''client_secret'', ClientSecret s), (''fb_exchange_token'', accessToken)],
                BasicAuth = None\<rparr> = Reply 200 (Inr body)
           \<and> json_Unmarshal_tokenResponse env body = Inr tr
           \<and> AccessToken t = access_token tr \<and> RefreshToken t = access_token tr" .
next
  assume a: "TokenURL s = InstagramTokenURL \<and> OAuthService_RefreshToken env w s accessToken = (Inr t, w')"
  then have "refreshTokenWithInstagram env w s accessToken = (Inr t, w')"
    using OAuthService_RefreshToken_instagram [of s env w accessToken] by simp
  from refreshTokenWithInstagram_Inr [OF this]
  show "\<exists>body tr.
             transport env
               \<lparr>Method = ''GET'', URL = ''https://graph.instagram.com/refresh_access_token'',
                Form = [(''grant_type'', ''ig_refresh_token''), (''access_token'', accessToken)],
                BasicAuth = None\<rparr> = Reply 200 (Inr body)
           \<and> json_Unmarshal_tokenResponse env body = Inr tr
           \<and> AccessToken t = access_token tr \<and> RefreshToken t = []" .
next
  assume a: "GetToken env w userID ''instagram'' serverName = (Inr cur, w1)
        \<and> isTokenExpired (time_Now env) (Some cur)
        \<and> GetValidToken env w userID ''instagram'' serverName = (Inr t2, w2)"
  let ?w = "log_Info ''token expired, attempting refresh'' w1"
  from a GetValidToken_refreshed [of env w userID "''instagram''" serverName cur w1 t2 w2]
  obtain c w3 where R: "refreshToken env ?w userID ''instagram'' serverName cur = (Inr t2, c, w3)"
    and d: "db w2 = db w3"
    by blast
  from refreshToken_Inr [OF R] obtain cfg w4 where
    cfg: "GetServerOAuthConfig (config env) ''instagram'' serverName [] = Inr cfg"
    and rf: "OAuthService_RefreshToken env ?w cfg (AccessToken cur) = (Inr t2, w4)"
    by auto
  have "refreshTokenWithInstagram env ?w cfg (AccessToken cur) = (Inr t2, w4)"
    using rf GetServerOAuthConfig_instagram [OF cfg]
      OAuthService_RefreshToken_instagram [of cfg env ?w "AccessToken cur"]
    by (simp add: InstagramTokenURL_def)
  from refreshTokenWithInstagram_Inr [OF this]
  show "RefreshToken t2 = []" by blast
  from refreshToken_Inr_db [OF R] d
  show "\<exists>data. json_Marshal_Token env t2 = Inr data
                \<and> db w2 (TokenKey userID ''instagram'' serverName) = Some data"
    by auto
qed

theorem exchange_token_grant_refresh_result_witness:
  "fst (OAuthService_RefreshToken fixture_env fixture_world
          (mkOAuth2Config fixture_provider FacebookAuthURL FacebookTokenURL []) ''tok123'')
     = Inr \<lparr>AccessToken = ''new456'', TokenType = ''bearer'', RefreshToken = ''new456'',
            Expiry = fixture_now + 5184000 * Second\<rparr>
   \<and> fst (OAuthService_RefreshToken fixture_env fixture_world
          (mkOAuth2Config fixture_provider InstagramAuthURL InstagramTokenURL []) ''tok123'')
     = Inr \<lparr>AccessToken = ''new456'', TokenType = ''bearer'', RefreshToken = [],
            Expiry = fixture_now + 5184000 * Second\<rparr>
   \<and> fst (GetToken fixture_env fixture_world ''user1'' ''instagram'' ''tenantX'') = Inr fixture_stale
   \<and> isTokenExpired (time_Now fixture_env) (Some fixture_stale)
   \<and> fst (GetValidToken fixture_env fixture_world ''user1'' ''instagram'' ''tenantX'')
     = Inr \<lparr>AccessToken = ''new456'', TokenType = ''bearer'', RefreshToken = [],
            Expiry = fixture_now + 5184000 * Second\<rparr>
   \<and> db (snd (GetValidToken fixture_env fixture_world ''user1'' ''instagram'' ''tenantX''))
        (TokenKey ''user1'' ''instagram'' ''tenantX'') = Some ''json:new456:''"
proof -
  let ?fb = "mkOAuth2Config fixture_provider FacebookAuthURL FacebookTokenURL []"
  let ?ig = "mkOAuth2Config fixture_provider InstagramAuthURL InstagramTokenURL []"
  let ?F = "OAuthService_RefreshToken fixture_env fixture_world ?fb ''tok123''"
  let ?I = "OAuthService_RefreshToken fixture_env fixture_world ?ig ''tok123''"
  let ?GT = "GetToken fixture_env fixture_world ''user1'' ''instagram'' ''tenantX''"
  let ?G = "GetValidToken fixture_env fixture_world ''user1'' ''instagram'' ''tenantX''"
  let ?newfb = "\<lparr>AccessToken = ''new456'', TokenType = ''bearer'', RefreshToken = ''new456'',
            Expiry = fixture_now + 5184000 * Second\<rparr>"
  let ?new = "\<lparr>AccessToken = ''new456'', TokenType = ''bearer'', RefreshToken = [],
            Expiry = fixture_now + 5184000 * Second\<rparr>"
  have f1: "fst ?F = Inr ?newfb" and i1: "fst ?I = Inr ?new"
    by (simp_all add: run_defs fixture_defs time_defs url_defs)
  have f: "?F = (Inr ?newfb, snd ?F)" and i: "?I = (Inr ?new, snd ?I)"
    using f1 i1 by (simp_all add: prod_eq_iff)
  have g1: "fst ?GT = Inr fixture_stale"
    by (simp add: GetToken_def redis_defs TokenKey_def fixture_env_def fixture_world_def)
  have g0: "?GT = (Inr fixture_stale, snd ?GT)"
    using g1 by (simp add: prod_eq_iff)
  have st: "isTokenExpired (time_Now fixture_env) (Some fixture_stale)"
    by (simp add: isTokenExpired_def fixture_defs time_defs)
  have g: "?G = (Inr ?new, snd ?G)"
    using fixture_GetValidToken_instagram by (simp add: prod_eq_iff)
  have u: "TokenURL ?fb = FacebookTokenURL" "TokenURL ?ig = InstagramTokenURL"
    by (simp_all add: mkOAuth2Config_def)
  note T = exchange_token_grant_refresh_result
  from T [of ?fb fixture_env fixture_world "''tok123''" ?newfb "snd ?F"] f u
  have 1: "RefreshToken ?newfb = AccessToken ?newfb" by auto
  from T [of ?ig fixture_env fixture_world "''tok123''" ?new "snd ?I"] i u
  have 2: "RefreshToken ?new = []" by auto
  from T [of _ fixture_env fixture_world _ _ _ "''user1''" "''tenantX''" fixture_stale "snd ?GT" ?new "snd ?G"]
    g0 st g
  have "\<exists>data. json_Marshal_Token fixture_env ?new = Inr data
          \<and> db (snd ?G) (TokenKey ''user1'' ''instagram'' ''tenantX'') = Some data"
    by auto
  then have 3: "db (snd ?G) (TokenKey ''user1'' ''instagram'' ''tenantX'') = Some ''json:new456:''"
    by (auto simp add: fixture_marshal)
  from f1 i1 g1 st fixture_GetValidToken_instagram 3 show ?thesis
    by blast
qed

text \<open>
  C8. For a configuration whose token URL is Instagram's or Facebook's: when the code
  exchange succeeds with a token and the long-lived-token upgrade call of that provider
  fails (for whatever reason: request, transport, read, status or decoding), then
  \<^verbatim>\<open>ExchangeCode\<close> succeeds and returns the token of the code exchange.
\<close>

theorem ExchangeCode_upgrade_failure_swallowed:
  assumes exchange:
      "oauth2lib env (LibExchange s code
          (if verifier = [] then [] else [(''code_verifier'', verifier)])) = Inr token"
    and upgrade:
      "(TokenURL s = InstagramTokenURL
          \<and> fst (exchangeInstagramToken env w0 s (AccessToken token)) = Inl e)
       \<or> (TokenURL s = FacebookTokenURL
          \<and> fst (exchangeFacebookToken env w0 s (AccessToken token)) = Inl e)"
  shows "fst (ExchangeCode env w s code verifier) = Inr token"
proof -
  let ?w0 = "w\<lparr>net_log := net_log w @ [LibExchange s code
          (if verifier = [] then [] else [(''code_verifier'', verifier)])]\<rparr>"
  from upgrade show ?thesis
  proof
    assume a: "TokenURL s = InstagramTokenURL
          \<and> fst (exchangeInstagramToken env w0 s (AccessToken token)) = Inl e"
    then have u: "TokenURL s = ''https://api.instagram.com/oauth/access_token''"
      by (simp add: InstagramTokenURL_def)
    have "fst (exchangeInstagramToken env ?w0 s (AccessToken token)) = Inl e"
      using a token_call_fst(1) [of env ?w0 s "AccessToken token" w0] by simp
    then obtain w' where "exchangeInstagramToken env ?w0 s (AccessToken token) = (Inl e, w')"
      by (cases "exchangeInstagramToken env ?w0 s (AccessToken token)") auto
    moreover have "(if verifier \<noteq> [] then
               (if TokenURL s = ''https://api.x.com/2/oauth2/token''
                then exchangeCodeWithPKCE env w s code verifier
                else call_oauth2lib env w (LibExchange s code [(''code_verifier'', verifier)]))
             else call_oauth2lib env w (LibExchange s code [])) = (Inr token, ?w0)"
      using exchange u by (cases "verifier = []") (simp_all add: call_oauth2lib_def)
    ultimately show ?thesis
      by (simp add: ExchangeCode_def u)
  next
    assume a: "TokenURL s = FacebookTokenURL
          \<and> fst (exchangeFacebookToken env w0 s (AccessToken token)) = Inl e"
    then have u: "TokenURL s = ''https://graph.facebook.com/v18.0/oauth/access_token''"
      by (simp add: FacebookTokenURL_def)
    have "fst (exchangeFacebookToken env ?w0 s (AccessToken token)) = Inl e"
      using a token_call_fst(2) [of env ?w0 s "AccessToken token" w0] by simp
    then obtain w' where "exchangeFacebookToken env ?w0 s (AccessToken token) = (Inl e, w')"
      by (cases "exchangeFacebookToken env ?w0 s (AccessToken token)") auto
    moreover have "(if verifier \<noteq> [] then
               (if TokenURL s = ''https://api.x.com/2/oauth2/token''
                then exchangeCodeWithPKCE env w s code verifier
                else call_oauth2lib env w (LibExchange s code [(''code_verifier'', verifier)]))
             else call_oauth2lib env w (LibExchange s code [])) = (Inr token, ?w0)"
      using exchange u by (cases "verifier = []") (simp_all add: call_oauth2lib_def)
    ultimately show ?thesis
      by (simp add: ExchangeCode_def u)
  qed
qed


theorem ExchangeCode_upgrade_failure_swallowed_witness:
  "fst (exchangeInstagramToken
          (fixture_env\<lparr>oauth2lib := (\<lambda>c. Inr fixture_stale),
                        transport := (\<lambda>req. Reply 500 (Inr ''Internal Server Error''))\<rparr>)
          fixture_world (mkOAuth2Config fixture_provider InstagramAuthURL InstagramTokenURL [])
          (AccessToken fixture_stale))
     = Inl (Errorf ''token exchange failed: status=%d body=%s'')
   \<and> fst (ExchangeCode
          (fixture_env\<lparr>oauth2lib := (\<lambda>c. Inr fixture_stale),
                        transport := (\<lambda>req. Reply 500 (Inr ''Internal Server Error''))\<rparr>)
          fixture_world (mkOAuth2Config fixture_provider InstagramAuthURL InstagramTokenURL [])
          ''abc'' [])
     = Inr fixture_stale
   \<and> fst (exchangeFacebookToken
          (fixture_env\<lparr>oauth2lib := (\<lambda>c. Inr fixture_stale),
                        transport := (\<lambda>req. SendError (Errorf ''context deadline exceeded''))\<rparr>)
          fixture_world (mkOAuth2Config fixture_provider FacebookAuthURL FacebookTokenURL [])
          (AccessToken fixture_stale))
     = Inl (Wrap ''failed to send request'' (Errorf ''context deadline exceeded''))
   \<and> fst (ExchangeCode
          (fixture_env\<lparr>oauth2lib := (\<lambda>c. Inr fixture_stale),
                        transport := (\<lambda>req. SendError (Errorf ''context deadline exceeded''))\<rparr>)
          fixture_world (mkOAuth2Config fixture_provider FacebookAuthURL FacebookTokenURL [])
          ''abc'' ''verifier'')
     = Inr fixture_stale"
proof -
  let ?e1 = "fixture_env\<lparr>oauth2lib := (\<lambda>c. Inr fixture_stale),
                        transport := (\<lambda>req. Reply 500 (Inr ''Internal Server Error''))\<rparr>"
  let ?e2 = "fixture_env\<lparr>oauth2lib := (\<lambda>c. Inr fixture_stale),
                        transport := (\<lambda>req. SendError (Errorf ''context deadline exceeded''))\<rparr>"
  let ?ig = "mkOAuth2Config fixture_provider InstagramAuthURL InstagramTokenURL []"
  let ?fb = "mkOAuth2Config fixture_provider FacebookAuthURL FacebookTokenURL []"
  have x1: "oauth2lib ?e1 (LibExchange ?ig ''abc''
          (if [] = ([]::string) then [] else [(''code_verifier'', [])])) = Inr fixture_stale"
    by simp
  have x2: "oauth2lib ?e2 (LibExchange ?fb ''abc''
          (if ''verifier'' = [] then [] else [(''code_verifier'', ''verifier'')])) = Inr fixture_stale"
    by simp
  have u1: "fst (exchangeInstagramToken ?e1 fixture_world ?ig (AccessToken fixture_stale))
     = Inl (Errorf ''token exchange failed: status=%d body=%s'')"
    by (simp add: exchangeInstagramToken_def doTokenRequest_def call_transport_def fixture_env_def)
  have u2: "fst (exchangeFacebookToken ?e2 fixture_world ?fb (AccessToken fixture_stale))
     = Inl (Wrap ''failed to send request'' (Errorf ''context deadline exceeded''))"
    by (simp add: exchangeFacebookToken_def doTokenRequest_def call_transport_def fixture_env_def)
  have t: "TokenURL ?ig = InstagramTokenURL" "TokenURL ?fb = FacebookTokenURL"
    by (simp_all add: mkOAuth2Config_def)
  from ExchangeCode_upgrade_failure_swallowed [OF x1, of fixture_world _ fixture_world] u1 t
  have r1: "fst (ExchangeCode ?e1 fixture_world ?ig ''abc'' []) = Inr fixture_stale"
    by blast
  from ExchangeCode_upgrade_failure_swallowed [OF x2, of fixture_world _ fixture_world] u2 t
  have r2: "fst (ExchangeCode ?e2 fixture_world ?fb ''abc'' ''verifier'') = Inr fixture_stale"
    by blast
  from u1 r1 u2 r2 show ?thesis by blast
qed

lemma doTokenRequest_ok:
  assumes "newRequestErr env req = None" "transport env req = Reply 200 (Inr body)"
    and "json_Unmarshal_tokenResponse env body = Inr tr"
  shows "doTokenRequest env w req f = (Inr tr, w\<lparr>net_log := net_log w @ [Do req]\<rparr>)"
  using assms by (simp add: doTokenRequest_def call_transport_def)

lemma SaveToken_ok:
  assumes "json_Marshal_Token env t = Inr data" "redis_fault env (redis_calls w) = None"
  shows "SaveToken env w u p s t
         = (None, w\<lparr>redis_calls := Suc (redis_calls w), db := (db w)(TokenKey u p s \<mapsto> data)\<rparr>)"
  using assms by (simp add: SaveToken_def redis_defs Let_def)

lemma refreshToken_instagram_not_Errorf:
  assumes "AccessToken token \<noteq> []"
  shows "fst (refreshToken env w userID ''instagram'' serverName token) \<noteq> Inl (Errorf m)"
  using assms
  by (simp add: refreshToken_unfold Let_def split: sum.splits prod.splits option.splits)

lemma refreshToken_instagram_ok:
  assumes at: "AccessToken token \<noteq> []" and sc: "Servers (config env) serverName = Some sc"
    and nr: "newRequestErr env
           \<lparr>Method = ''GET'', URL = ''https://graph.instagram.com/refresh_access_token'',
            Form = [(''grant_type'', ''ig_refresh_token''), (''access_token'', AccessToken token)],
            BasicAuth = None\<rparr> = None"
    and tr: "transport env
           \<lparr>Method = ''GET'', URL = ''https://graph.instagram.com/refresh_access_token'',
            Form = [(''grant_type'', ''ig_refresh_token''), (''access_token'', AccessToken token)],
            BasicAuth = None\<rparr> = Reply 200 (Inr body)"
    and js: "json_Unmarshal_tokenResponse env body = Inr resp"
    and ma: "json_Marshal_Token env
               (setExpiry env resp \<lparr>AccessToken = access_token resp, TokenType = token_type resp,
                                    RefreshToken = [], Expiry = 0\<rparr>) = Inr data"
    and rf: "redis_fault env (redis_calls w) = None"
  shows "fst (refreshToken env w userID ''instagram'' serverName token)
           = Inr (setExpiry env resp \<lparr>AccessToken = access_token resp, TokenType = token_type resp,
                                       RefreshToken = [], Expiry = 0\<rparr>)
         \<and> db (snd (snd (refreshToken env w userID ''instagram'' serverName token)))
           = (db w)(TokenKey userID ''instagram'' serverName \<mapsto> data)"
proof -
  let ?req = "\<lparr>Method = ''GET'', URL = ''https://graph.instagram.com/refresh_access_token'',
            Form = [(''grant_type'', ''ig_refresh_token''), (''access_token'', AccessToken token)],
            BasicAuth = None\<rparr>"
  let ?cfg = "mkOAuth2Config (Instagram sc) InstagramAuthURL InstagramTokenURL []"
  let ?new = "setExpiry env resp \<lparr>AccessToken = access_token resp, TokenType = token_type resp,
                                   RefreshToken = [], Expiry = 0\<rparr>"
  let ?w1 = "w\<lparr>net_log := net_log w @ [Do ?req]\<rparr>"
  have cfg: "GetServerOAuthConfig (config env) ''instagram'' serverName [] = Inr ?cfg"
    using sc by (simp add: GetServerOAuthConfig_def)
  have url: "TokenURL ?cfg = ''https://api.instagram.com/oauth/access_token''"
    by (simp add: mkOAuth2Config_def InstagramTokenURL_def)
  have r: "OAuthService_RefreshToken env w ?cfg (AccessToken token)
           = refreshTokenWithInstagram env w ?cfg (AccessToken token)"
    by (simp add: OAuthService_RefreshToken_def url)
  have rt: "refreshTokenWithInstagram env w ?cfg (AccessToken token) = (Inr ?new, ?w1)"
    by (simp add: refreshTokenWithInstagram_def Let_def doTokenRequest_ok [OF nr tr js])
  have rf1: "redis_fault env (redis_calls ?w1) = None"
    using rf by simp
  have sv: "SaveToken env ?w1 userID ''instagram'' serverName ?new
         = (None, ?w1\<lparr>redis_calls := Suc (redis_calls ?w1),
                       db := (db ?w1)(TokenKey userID ''instagram'' serverName \<mapsto> data)\<rparr>)"
    by (rule SaveToken_ok [OF ma rf1])
  show ?thesis
    using at by (simp add: refreshToken_def cfg r rt sv)
qed


text \<open>
  C2. Refresh credential substitution. \<^verbatim>\<open>GetValidToken\<close> has found a Stale token with an
  empty \<^verbatim>\<open>RefreshToken\<close>. For Instagram, when the token has an \<^verbatim>\<open>AccessToken\<close> (and the
  tenant is configured and the request can be built), the refresh is attempted with the
  \<^verbatim>\<open>AccessToken\<close> as the credential: exactly one provider call is made, the Instagram
  refresh request whose \<^verbatim>\<open>access_token\<close> parameter is that \<^verbatim>\<open>AccessToken\<close>; the operation
  does not fail for want of a credential; and when the provider answers 200 with a body
  that decodes and the new token is saved (it can be marshalled and the \<^verbatim>\<open>SET\<close> command
  does not fail), the operation returns the new token, whose \<^verbatim>\<open>AccessToken\<close> is the
  response's \<^verbatim>\<open>access_token\<close>, and that token is what the store holds. For every
  other provider name the operation fails with the error \<^verbatim>\<open>refresh token not available\<close>
  (wrapped as \<^verbatim>\<open>token refresh failed\<close>) and no provider call is made.
\<close>

theorem GetValidToken_refresh_credential:
  assumes found: "GetToken env w userID provider serverName = (Inr token, w1)"
    and stale: "isTokenExpired (time_Now env) (Some token)"
    and norefresh: "RefreshToken token = []"
  shows "(provider = ''instagram'' \<and> AccessToken token \<noteq> []
            \<and> Servers (config env) serverName \<noteq> None
            \<and> newRequestErr env
                 \<lparr>Method = ''GET'', URL = ''https://graph.instagram.com/refresh_access_token'',
                  Form = [(''grant_type'', ''ig_refresh_token''), (''access_token'', AccessToken token)],
                  BasicAuth = None\<rparr> = None
          \<longrightarrow> net_log (snd (GetValidToken env w userID provider serverName))
                = net_log w @
                  [Do \<lparr>Method = ''GET'', URL = ''https://graph.instagram.com/refresh_access_token'',
                       Form = [(''grant_type'', ''ig_refresh_token''), (''access_token'', AccessToken token)],
                       BasicAuth = None\<rparr>]
              \<and> (\<forall>m. fst (GetValidToken env w userID provider serverName)
                       \<noteq> Inl (Wrap ''token refresh failed'' (Errorf m)))
              \<and> (\<forall>body resp data.
                    transport env
                       \<lparr>Method = ''GET'', URL = ''https://graph.instagram.com/refresh_access_token'',
                        Form = [(''grant_type'', ''ig_refresh_token''), (''access_token'', AccessToken token)],
                        BasicAuth = None\<rparr> = Reply 200 (Inr body)
                    \<and> json_Unmarshal_tokenResponse env body = Inr resp
                    \<and> json_Marshal_Token env
                         (setExpiry env resp
                            \<lparr>AccessToken = access_token resp, TokenType = token_type resp,
                             RefreshToken = [], Expiry = 0\<rparr>) = Inr data
                    \<and> redis_fault env (redis_calls w1) = None
                  \<longrightarrow> fst (GetValidToken env w userID provider serverName)
                        = Inr (setExpiry env resp
                                 \<lparr>AccessToken = access_token resp, TokenType = token_type resp,
                                  RefreshToken = [], Expiry = 0\<rparr>)
                      \<and> (\<exists>t. fst (GetValidToken env w userID provider serverName) = Inr t
                              \<and> AccessToken t = access_token resp)
                      \<and> db (snd (GetValidToken env w userID provider serverName))
                        = (db w)(TokenKey userID provider serverName \<mapsto> data)))
       \<and> (provider \<noteq> ''instagram''
          \<longrightarrow> fst (GetValidToken env w userID provider serverName)
                = Inl (Wrap ''token refresh failed'' (Errorf ''refresh token not available''))
              \<and> net_log (snd (GetValidToken env w userID provider serverName)) = net_log w)"
proof -
  have w1: "net_log w1 = net_log w" "db w1 = db w"
    using GetToken_world [OF found] by simp_all
  let ?w2 = "log_Info ''token expired, attempting refresh'' w1"
  let ?req = "\<lparr>Method = ''GET'', URL = ''https://graph.instagram.com/refresh_access_token'',
                  Form = [(''grant_type'', ''ig_refresh_token''), (''access_token'', AccessToken token)],
                  BasicAuth = None\<rparr>"
  have w2: "net_log ?w2 = net_log w" "db ?w2 = db w" "redis_calls ?w2 = redis_calls w1"
    using w1 by (simp_all add: log_Info_def)
  have gv: "GetValidToken env w userID provider serverName =
      (case refreshToken env ?w2 userID provider serverName token of
         (Inl e, _, w2) \<Rightarrow> (Inl (Wrap ''token refresh failed'' e), log_Error ''token refresh failed'' w2)
       | (Inr newToken, _, w2) \<Rightarrow> (Inr newToken, log_Info ''token refreshed successfully'' w2))"
    using stale by (simp add: GetValidToken_def found)
  have nl: "net_log (snd (GetValidToken env w userID provider serverName))
            = net_log (snd (snd (refreshToken env ?w2 userID provider serverName token)))"
    by (simp add: gv log_Error_def log_Info_def split: prod.splits sum.splits)
  have dl: "db (snd (GetValidToken env w userID provider serverName))
            = db (snd (snd (refreshToken env ?w2 userID provider serverName token)))"
    by (simp add: gv log_Error_def log_Info_def split: prod.splits sum.splits)
  have fl: "fst (GetValidToken env w userID provider serverName)
            = (case fst (refreshToken env ?w2 userID provider serverName token) of
                 Inl e \<Rightarrow> Inl (Wrap ''token refresh failed'' e)
               | Inr newToken \<Rightarrow> Inr newToken)"
    by (simp add: gv split: prod.splits sum.splits)
  show ?thesis
  proof (intro conjI impI allI)
    assume a: "provider = ''instagram'' \<and> AccessToken token \<noteq> []
            \<and> Servers (config env) serverName \<noteq> None \<and> newRequestErr env ?req = None"
    then obtain sc where sc: "Servers (config env) serverName = Some sc" by blast
    from a refreshToken_instagram_net_log [OF _ sc, of token ?w2 userID] w2 nl
    show "net_log (snd (GetValidToken env w userID provider serverName)) = net_log w @ [Do ?req]"
      by simp
  next
    fix m
    assume a: "provider = ''instagram'' \<and> AccessToken token \<noteq> []
            \<and> Servers (config env) serverName \<noteq> None \<and> newRequestErr env ?req = None"
    from a have p: "provider = ''instagram''" and at: "AccessToken token \<noteq> []" by simp_all
    show "fst (GetValidToken env w userID provider serverName)
            \<noteq> Inl (Wrap ''token refresh failed'' (Errorf m))"
      using refreshToken_instagram_not_Errorf [OF at, of env ?w2 userID serverName m] fl
      by (simp add: p split: sum.splits)
  next
    fix body resp data
    assume a: "provider = ''instagram'' \<and> AccessToken token \<noteq> []
            \<and> Servers (config env) serverName \<noteq> None \<and> newRequestErr env ?req = None"
      and b: "transport env ?req = Reply 200 (Inr body)
                    \<and> json_Unmarshal_tokenResponse env body = Inr resp
                    \<and> json_Marshal_Token env
                         (setExpiry env resp
                            \<lparr>AccessToken = access_token resp, TokenType = token_type resp,
                             RefreshToken = [], Expiry = 0\<rparr>) = Inr data
                    \<and> redis_fault env (redis_calls w1) = None"
    let ?new = "setExpiry env resp \<lparr>AccessToken = access_token resp, TokenType = token_type resp,
                                     RefreshToken = [], Expiry = 0\<rparr>"
    from a have p: "provider = ''instagram''" and at: "AccessToken token \<noteq> []"
      and nr: "newRequestErr env ?req = None" by simp_all
    from a obtain sc where sc: "Servers (config env) serverName = Some sc" by blast
    from b have tr: "transport env ?req = Reply 200 (Inr body)"
      and js: "json_Unmarshal_tokenResponse env body = Inr resp"
      and ma: "json_Marshal_Token env ?new = Inr data"
      and rf: "redis_fault env (redis_calls ?w2) = None"
      by (simp_all add: w2)
    note ok = refreshToken_instagram_ok [OF at sc nr tr js ma rf, of userID]
    show r: "fst (GetValidToken env w userID provider serverName) = Inr ?new"
      using ok fl by (simp add: p)
    have "AccessToken ?new = access_token resp"
      by (simp add: setExpiry_def)
    with r show "\<exists>t. fst (GetValidToken env w userID provider serverName) = Inr t
                   \<and> AccessToken t = access_token resp"
      by blast
    show "db (snd (GetValidToken env w userID provider serverName))
            = (db w)(TokenKey userID provider serverName \<mapsto> data)"
      using ok dl by (simp add: p w2)
  next
    assume b: "provider \<noteq> ''instagram''"
    show "fst (GetValidToken env w userID provider serverName)
                = Inl (Wrap ''token refresh failed'' (Errorf ''refresh token not available''))"
      by (simp add: gv refreshToken_unavailable [OF b norefresh])
  next
    assume b: "provider \<noteq> ''instagram''"
    show "net_log (snd (GetValidToken env w userID provider serverName)) = net_log w"
      using w2 by (simp add: nl refreshToken_unavailable [OF b norefresh] log_Error_def)
  qed
qed

theorem GetValidToken_refresh_credential_witness:
  "GetToken fixture_env fixture_world ''user1'' ''instagram'' ''tenantX''
     = (Inr fixture_stale, fixture_world\<lparr>redis_calls := 2\<rparr>)
   \<and> GetToken fixture_env fixture_world ''user1'' ''youtube'' ''tenantX''
     = (Inr fixture_stale, fixture_world\<lparr>redis_calls := 2\<rparr>)
   \<and> isTokenExpired (time_Now fixture_env) (Some fixture_stale)
   \<and> RefreshToken fixture_stale = [] \<and> AccessToken fixture_stale = ''tok123''
   \<and> net_log (snd (GetValidToken fixture_env fixture_world ''user1'' ''instagram'' ''tenantX''))
       = [Do \<lparr>Method = ''GET'', URL = ''https://graph.instagram.com/refresh_access_token'',
              Form = [(''grant_type'', ''ig_refresh_token''), (''access_token'', ''tok123'')],
              BasicAuth = None\<rparr>]
   \<and> fst (GetValidToken fixture_env fixture_world ''user1'' ''instagram'' ''tenantX'')
       = Inr \<lparr>AccessToken = ''new456'', TokenType = ''bearer'', RefreshToken = [],
              Expiry = fixture_now + 5184000 * Second\<rparr>
   \<and> db (snd (GetValidToken fixture_env fixture_world ''user1'' ''instagram'' ''tenantX''))
       = (db fixture_world)(''token:tenantX:instagram:user1'' \<mapsto> ''json:new456:'')
   \<and> fst (GetValidToken fixture_env fixture_world ''user1'' ''youtube'' ''tenantX'')
       = Inl (Wrap ''token refresh failed'' (Errorf ''refresh token not available''))
   \<and> net_log (snd (GetValidToken fixture_env fixture_world ''user1'' ''youtube'' ''tenantX'')) = []"
proof -
  let ?req = "\<lparr>Method = ''GET'', URL = ''https://graph.instagram.com/refresh_access_token'',
              Form = [(''grant_type'', ''ig_refresh_token''), (''access_token'', ''tok123'')],
              BasicAuth = None\<rparr>"
  let ?resp = "\<lparr>access_token = ''new456'', token_type = ''bearer'', expires_in = 5184000,
                 refresh_token = [], scope = []\<rparr>"
  let ?new = "\<lparr>AccessToken = ''new456'', TokenType = ''bearer'', RefreshToken = [],
              Expiry = fixture_now + 5184000 * Second\<rparr>"
  have ig: "GetToken fixture_env fixture_world ''user1'' ''instagram'' ''tenantX''
     = (Inr fixture_stale, fixture_world\<lparr>redis_calls := 2\<rparr>)"
    by (simp add: GetToken_def redis_defs TokenKey_def fixture_env_def fixture_world_def)
  have yt: "GetToken fixture_env fixture_world ''user1'' ''youtube'' ''tenantX''
     = (Inr fixture_stale, fixture_world\<lparr>redis_calls := 2\<rparr>)"
    by (simp add: GetToken_def redis_defs TokenKey_def fixture_env_def fixture_world_def)
  have stale: "isTokenExpired (time_Now fixture_env) (Some fixture_stale)"
    by (simp add: isTokenExpired_def fixture_defs time_defs)
  have nr: "RefreshToken fixture_stale = []" and at: "AccessToken fixture_stale = ''tok123''"
    by (simp_all add: fixture_stale_def)
  have env: "Servers (config fixture_env) ''tenantX'' \<noteq> None"
    "\<And>req. newRequestErr fixture_env req = None" "net_log fixture_world = []"
    by (simp_all add: fixture_env_def fixture_config_def fixture_world_def)
  have tr: "transport fixture_env ?req = Reply 200 (Inr ''{new456}'')"
    by (simp add: fixture_env_def)
  have js: "json_Unmarshal_tokenResponse fixture_env ''{new456}'' = Inr ?resp"
    by (simp add: fixture_env_def)
  have new: "setExpiry fixture_env ?resp
               \<lparr>AccessToken = access_token ?resp, TokenType = token_type ?resp,
                RefreshToken = [], Expiry = 0\<rparr> = ?new"
    by (simp add: setExpiry_def fixture_env_def fixture_now_def time_defs)
  have ma: "json_Marshal_Token fixture_env ?new = Inr ''json:new456:''"
    by (simp add: fixture_env_def)
  have rf: "redis_fault fixture_env (redis_calls (fixture_world\<lparr>redis_calls := 2\<rparr>)) = None"
    by (simp add: fixture_env_def)
  have key: "TokenKey ''user1'' ''instagram'' ''tenantX'' = ''token:tenantX:instagram:user1''"
    by (simp add: TokenKey_def)
  from GetValidToken_refresh_credential [OF ig stale nr] env at tr js new ma rf key
  have a: "net_log (snd (GetValidToken fixture_env fixture_world ''user1'' ''instagram'' ''tenantX''))
       = [Do ?req]
     \<and> fst (GetValidToken fixture_env fixture_world ''user1'' ''instagram'' ''tenantX'') = Inr ?new
     \<and> db (snd (GetValidToken fixture_env fixture_world ''user1'' ''instagram'' ''tenantX''))
       = (db fixture_world)(''token:tenantX:instagram:user1'' \<mapsto> ''json:new456:'')"
    by simp
  from GetValidToken_refresh_credential [OF yt stale nr] env
  have b: "fst (GetValidToken fixture_env fixture_world ''user1'' ''youtube'' ''tenantX'')
       = Inl (Wrap ''token refresh failed'' (Errorf ''refresh token not available''))
   \<and> net_log (snd (GetValidToken fixture_env fixture_world ''user1'' ''youtube'' ''tenantX'')) = []"
    by simp
  from ig yt stale nr at a b show ?thesis by blast
qed

subsection \<open>The state parameter: decoding inverts encoding\<close>





































lemma special_neq:
  "backslash \<noteq> dquote" "CHR ''u'' \<noteq> dquote" "CHR ''u'' \<noteq> backslash"
  by (simp_all add: dquote_def backslash_def)








declare scanString.simps [simp del] appendString.simps [simp del] DecodeRune.simps [simp del]
  utf8_coerce.simps [simp del] utf8_ValidString.simps [simp del]














































end
